theory Spec2Isabelle
  imports Main "HOL-Library.AList"
begin

section \<open>Python values and the operations of \<^verbatim>\<open>cli.py\<close> on them\<close>

text \<open>
  \<^verbatim>\<open>cli.py\<close> works on the values that \<^verbatim>\<open>response.json()\<close> and \<^verbatim>\<open>yaml.safe_load\<close> return:
  \<^verbatim>\<open>None\<close>, booleans, integers, strings, lists and dicts with string keys. Numbers are
  integers here (floating point values are outside the model). A dict is an association
  list that stands for the dict whose value at a key is the first binding of that key.
\<close>

datatype json =
    JNull
  | JBool bool
  | JNum int
  | JStr string
  | JArr "json list"
  | JObj "(string \<times> json) list"

text \<open>The exceptions that the code can raise, by their Python names.\<close>

datatype error =
    KeyError
  | TypeError
  | AttributeError
  | ValueError string
  | FileNotFoundError string
  | YAMLError
  | RequestException
  | HTTPError int
  | JSONDecodeError

text \<open>Sequencing of statements that may raise: the first exception ends the computation.\<close>

definition bindE :: "error + 'a \<Rightarrow> ('a \<Rightarrow> error + 'b) \<Rightarrow> error + 'b" where
  "bindE m f = (case m of Inl e \<Rightarrow> Inl e | Inr v \<Rightarrow> f v)"

text \<open>A \<^verbatim>\<open>for\<close> loop whose body updates a state and may raise.\<close>

fun foldE :: "('a \<Rightarrow> 's \<Rightarrow> error + 's) \<Rightarrow> 'a list \<Rightarrow> 's \<Rightarrow> error + 's" where
  "foldE f [] s = Inr s"
| "foldE f (x # xs) s = bindE (f x s) (foldE f xs)"

text \<open>A list comprehension whose element expression may raise.\<close>

fun mapE :: "('a \<Rightarrow> error + 'b) \<Rightarrow> 'a list \<Rightarrow> error + 'b list" where
  "mapE f [] = Inr []"
| "mapE f (x # xs) = bindE (f x) (\<lambda>y. bindE (mapE f xs) (\<lambda>ys. Inr (y # ys)))"

text \<open>Truth value of a Python value (\<^verbatim>\<open>if x:\<close>, \<^verbatim>\<open>not x\<close>, \<^verbatim>\<open>while x:\<close>).\<close>

fun truthy :: "json \<Rightarrow> bool" where
  "truthy JNull = False"
| "truthy (JBool b) = b"
| "truthy (JNum n) = (n \<noteq> 0)"
| "truthy (JStr s) = (s \<noteq> [])"
| "truthy (JArr xs) = (xs \<noteq> [])"
| "truthy (JObj kvs) = (kvs \<noteq> [])"

text \<open>\<^verbatim>\<open>x[k]\<close> for a string \<^verbatim>\<open>k\<close>: KeyError on a dict without the key, TypeError on every
  value that is not a dict.\<close>

fun getitem :: "json \<Rightarrow> string \<Rightarrow> error + json" where
  "getitem (JObj kvs) k = (case map_of kvs k of None \<Rightarrow> Inl KeyError | Some v \<Rightarrow> Inr v)"
| "getitem _ k = Inl TypeError"

text \<open>\<^verbatim>\<open>x.get(k, d)\<close>: only a dict has the method.\<close>

fun get_method :: "json \<Rightarrow> string \<Rightarrow> json \<Rightarrow> error + json" where
  "get_method (JObj kvs) k d = Inr (case map_of kvs k of None \<Rightarrow> d | Some v \<Rightarrow> v)"
| "get_method _ k d = Inl AttributeError"

text \<open>\<^verbatim>\<open>x.items()\<close>: the pairs of a dict, one for each key.\<close>

fun items :: "json \<Rightarrow> error + (string \<times> json) list" where
  "items (JObj kvs) = Inr (AList.clearjunk kvs)"
| "items _ = Inl AttributeError"

text \<open>The elements that \<^verbatim>\<open>for x in v\<close> visits: those of a list, the characters of a string,
  the keys of a dict; other values are not iterable.\<close>

fun iter :: "json \<Rightarrow> error + json list" where
  "iter (JArr xs) = Inr xs"
| "iter (JStr s) = Inr (map (\<lambda>c. JStr [c]) s)"
| "iter (JObj kvs) = Inr (map (\<lambda>kv. JStr (fst kv)) (AList.clearjunk kvs))"
| "iter _ = Inl TypeError"

text \<open>Keys of the dict \<^verbatim>\<open>included_data\<close>. Lists and dicts are unhashable; \<^verbatim>\<open>True\<close> and \<^verbatim>\<open>1\<close>
  (\<^verbatim>\<open>False\<close> and \<^verbatim>\<open>0\<close>) are the same key.\<close>

datatype hkey = KNone | KInt int | KStr string

fun hash_key :: "json \<Rightarrow> error + hkey" where
  "hash_key JNull = Inr KNone"
| "hash_key (JBool b) = Inr (KInt (if b then 1 else 0))"
| "hash_key (JNum n) = Inr (KInt n)"
| "hash_key (JStr s) = Inr (KStr s)"
| "hash_key _ = Inl TypeError"

type_synonym included = "hkey \<rightharpoonup> json"

text \<open>\<^verbatim>\<open>included_data.get(k)\<close>: \<^verbatim>\<open>None\<close> (here: no value) when the key is absent.\<close>

definition included_get :: "included \<Rightarrow> json \<Rightarrow> error + json option" where
  "included_get included_data k = bindE (hash_key k) (\<lambda>h. Inr (included_data h))"

text \<open>\<^verbatim>\<open>n + v\<close> for an integer \<^verbatim>\<open>n\<close>: defined on integers and booleans.\<close>

fun add_int :: "int \<Rightarrow> json \<Rightarrow> error + int" where
  "add_int n (JNum m) = Inr (n + m)"
| "add_int n (JBool b) = Inr (n + (if b then 1 else 0))"
| "add_int n _ = Inl TypeError"

section \<open>\<^verbatim>\<open>fetch_people\<close>: flattening one person\<close>

record person_info =
  pid :: json
  first_name :: json
  last_name :: json
  nickname :: json
  birthday :: json
  anniversary :: json
  gender :: json
  marital_status :: json
  child :: json
  avatar :: json
  status :: json
  inactivated_at :: json
  inactive_reason :: json
  membership :: json
  created_at :: json
  updated_at :: json
  graduation_year :: json
  medical_notes :: json
  school_type :: json
  login_identifier :: json
  household_count :: int
  home_street :: json
  home_city :: json
  home_state :: json
  home_zip :: json
  work_street :: json
  work_city :: json
  work_state :: json
  work_zip :: json
  phone_numbers :: "json list"
  emails :: "json list"

text \<open>The dict literal of lines 54-89. \<^verbatim>\<open>person["id"]\<close> is evaluated first; every
  \<^verbatim>\<open>attributes.get(k)\<close> raises AttributeError unless \<^verbatim>\<open>attributes\<close> is a dict, and yields
  \<^verbatim>\<open>None\<close> for a missing key.\<close>

definition new_person_info :: "json \<Rightarrow> json \<Rightarrow> error + person_info" where
  "new_person_info person attributes =
     bindE (getitem person ''id'') (\<lambda>i.
       (case attributes of
          JObj kvs \<Rightarrow>
            (let get = (\<lambda>k. case map_of kvs k of None \<Rightarrow> JNull | Some v \<Rightarrow> v) in
             Inr \<lparr> pid = i,
                   first_name = get ''first_name'',
                   last_name = get ''last_name'',
                   nickname = get ''nickname'',
                   birthday = get ''birthdate'',
                   anniversary = get ''anniversary'',
                   gender = get ''gender'',
                   marital_status = get ''marital_status'',
                   child = get ''child'',
                   avatar = get ''avatar'',
                   status = get ''status'',
                   inactivated_at = get ''inactivated_at'',
                   inactive_reason = get ''inactive_reason'',
                   membership = get ''membership'',
                   created_at = get ''created_at'',
                   updated_at = get ''updated_at'',
                   graduation_year = get ''graduation_year'',
                   medical_notes = get ''medical_notes'',
                   school_type = get ''school_type'',
                   login_identifier = get ''login_identifier'',
                   household_count = 0,
                   home_street = JNull,
                   home_city = JNull,
                   home_state = JNull,
                   home_zip = JNull,
                   work_street = JNull,
                   work_city = JNull,
                   work_state = JNull,
                   work_zip = JNull,
                   phone_numbers = [],
                   emails = [] \<rparr>)
        | _ \<Rightarrow> Inl AttributeError))"

text \<open>Line 91: \<^verbatim>\<open>{item["id"]: item for item in data.get("included", [])}\<close>. A later item
  with the same id replaces an earlier one.\<close>

definition included_item :: "json \<Rightarrow> included \<Rightarrow> error + included" where
  "included_item item m =
     bindE (getitem item ''id'') (\<lambda>i.
     bindE (hash_key i) (\<lambda>h. Inr (m(h \<mapsto> item))))"

definition build_included :: "json \<Rightarrow> error + included" where
  "build_included data =
     bindE (get_method data ''included'' (JArr [])) (\<lambda>inc.
     bindE (iter inc) (\<lambda>its. foldE included_item its Map.empty))"

text \<open>Lines 95-98, the body of the loop over \<^verbatim>\<open>rel_data["data"]\<close> for phone numbers.\<close>

definition phone_step :: "included \<Rightarrow> json \<Rightarrow> person_info \<Rightarrow> error + person_info" where
  "phone_step included_data phone_id info =
     bindE (getitem phone_id ''id'') (\<lambda>i.
     bindE (included_get included_data i) (\<lambda>phone.
       (case phone of
          None \<Rightarrow> Inr info
        | Some p \<Rightarrow>
            if truthy p then
              bindE (getitem p ''attributes'') (\<lambda>a.
              bindE (getitem a ''number'') (\<lambda>n.
                Inr (info\<lparr>phone_numbers := phone_numbers info @ [n]\<rparr>)))
            else Inr info)))"

text \<open>Lines 101-104, for emails.\<close>

definition email_step :: "included \<Rightarrow> json \<Rightarrow> person_info \<Rightarrow> error + person_info" where
  "email_step included_data email_id info =
     bindE (getitem email_id ''id'') (\<lambda>i.
     bindE (included_get included_data i) (\<lambda>email.
       (case email of
          None \<Rightarrow> Inr info
        | Some e \<Rightarrow>
            if truthy e then
              bindE (getitem e ''attributes'') (\<lambda>a.
              bindE (getitem a ''address'') (\<lambda>n.
                Inr (info\<lparr>emails := emails info @ [n]\<rparr>)))
            else Inr info)))"

text \<open>Lines 107-120, for addresses. \<^verbatim>\<open>address["attributes"]\<close> is evaluated again for each
  of the four fields; the first evaluation (for the location) has already succeeded, and
  \<^verbatim>\<open>.get\<close> on its value raises AttributeError unless that value is a dict.\<close>

definition address_step :: "included \<Rightarrow> json \<Rightarrow> person_info \<Rightarrow> error + person_info" where
  "address_step included_data address_id info =
     bindE (getitem address_id ''id'') (\<lambda>i.
     bindE (included_get included_data i) (\<lambda>address.
       (case address of
          None \<Rightarrow> Inr info
        | Some ad \<Rightarrow>
            if truthy ad then
              bindE (getitem ad ''attributes'') (\<lambda>a.
              bindE (getitem a ''location'') (\<lambda>address_type.
                if address_type = JStr ''Home'' then
                  bindE (get_method a ''street'' JNull) (\<lambda>street.
                  bindE (get_method a ''city'' JNull) (\<lambda>city.
                  bindE (get_method a ''state'' JNull) (\<lambda>state.
                  bindE (get_method a ''zip'' JNull) (\<lambda>zip.
                    Inr (info\<lparr>home_street := street, home_city := city,
                               home_state := state, home_zip := zip\<rparr>)))))
                else if address_type = JStr ''Work'' then
                  bindE (get_method a ''street'' JNull) (\<lambda>street.
                  bindE (get_method a ''city'' JNull) (\<lambda>city.
                  bindE (get_method a ''state'' JNull) (\<lambda>state.
                  bindE (get_method a ''zip'' JNull) (\<lambda>zip.
                    Inr (info\<lparr>work_street := street, work_city := city,
                               work_state := state, work_zip := zip\<rparr>)))))
                else Inr info))
            else Inr info)))"

text \<open>Lines 123-128, for households.\<close>

definition household_step :: "included \<Rightarrow> json \<Rightarrow> person_info \<Rightarrow> error + person_info" where
  "household_step included_data household info =
     bindE (getitem household ''id'') (\<lambda>household_id.
     bindE (included_get included_data household_id) (\<lambda>household_data.
       (case household_data of
          None \<Rightarrow> Inr info
        | Some h \<Rightarrow>
            if truthy h then
              bindE (getitem h ''type'') (\<lambda>t.
                if t = JStr ''Household'' then
                  bindE (getitem h ''attributes'') (\<lambda>a.
                  bindE (get_method a ''member_count'' (JNum 0)) (\<lambda>member_count.
                  bindE (add_int (household_count info) member_count) (\<lambda>c.
                    Inr (info\<lparr>household_count := c\<rparr>))))
                else Inr info)
            else Inr info)))"

text \<open>Lines 93-128: one pair of \<^verbatim>\<open>person.get("relationships", {}).items()\<close>.\<close>

definition rel_step :: "included \<Rightarrow> string \<times> json \<Rightarrow> person_info \<Rightarrow> error + person_info" where
  "rel_step included_data rel info =
     (let rel_type = fst rel; rel_data = snd rel in
      if rel_type = ''phone_numbers'' then
        bindE (getitem rel_data ''data'') (\<lambda>d.
        bindE (iter d) (\<lambda>refs. foldE (phone_step included_data) refs info))
      else if rel_type = ''emails'' then
        bindE (getitem rel_data ''data'') (\<lambda>d.
        bindE (iter d) (\<lambda>refs. foldE (email_step included_data) refs info))
      else if rel_type = ''addresses'' then
        bindE (getitem rel_data ''data'') (\<lambda>d.
        bindE (iter d) (\<lambda>refs. foldE (address_step included_data) refs info))
      else if rel_type = ''households'' then
        bindE (getitem rel_data ''data'') (\<lambda>d.
        bindE (iter d) (\<lambda>refs. foldE (household_step included_data) refs info))
      else Inr info)"

text \<open>Lines 53-130: the record appended to \<^verbatim>\<open>people_list\<close> for one element \<^verbatim>\<open>person\<close> of
  the page \<^verbatim>\<open>data\<close>.\<close>

definition flatten_person :: "json \<Rightarrow> json \<Rightarrow> error + person_info" where
  "flatten_person data person =
     bindE (getitem person ''attributes'') (\<lambda>attributes.
     bindE (new_person_info person attributes) (\<lambda>info.
     bindE (build_included data) (\<lambda>included_data.
     bindE (get_method person ''relationships'' (JObj [])) (\<lambda>rels.
     bindE (items rels) (\<lambda>kvs. foldE (rel_step included_data) kvs info)))))"


section \<open>The network, the file system and standard output\<close>

text \<open>
  An HTTP call either raises (a \<^verbatim>\<open>requests\<close> exception: no connection, timeout, invalid
  URL) or returns a response. Of a response the code reads \<^verbatim>\<open>status_code\<close> and \<^verbatim>\<open>json()\<close>;
  \<^verbatim>\<open>body\<close> is \<^verbatim>\<open>None\<close> when the body is not JSON, and \<^verbatim>\<open>json()\<close> raises. (Over HTTP a
  response with status 1xx, 204 or 304 has no body.) The exception of a call that raises is
  a \<^verbatim>\<open>RequestException\<close> that is no \<^verbatim>\<open>ValueError\<close>: the URLs that a server names are
  taken to be well-formed.
\<close>

record response =
  status_code :: int
  body :: "json option"

datatype http_result = Raises | Responds response

text \<open>A URL is a Python value (a string literal of the code, or the value of
  \<^verbatim>\<open>links.next\<close>), or one of the f-strings of the code with the values it formats.\<close>

datatype url =
    Url json
  | Team_people_url json
  | Team_positions_url json
  | Assignments_url json json
  | Assignment_url json json json

fun url_truthy :: "url \<Rightarrow> bool" where
  "url_truthy (Url v) = truthy v"
| "url_truthy _ = True"

type_synonym auth = "json \<times> json"

datatype request =
    Get url auth "(string \<times> json) list"
  | Delete url auth

text \<open>The server is any deterministic state machine: it answers a request in its current
  state and moves to a new state.\<close>

type_synonym 'w server = "'w \<Rightarrow> request \<Rightarrow> http_result \<times> 'w"

text \<open>A file of the file system, as \<^verbatim>\<open>load_authentication\<close> sees it: absent, present with
  a content that \<^verbatim>\<open>yaml.safe_load\<close> rejects, or present with the value it loads.\<close>

datatype config_file = Missing | Malformed | Yaml json

text \<open>A cell of a printed row: a string, or \<^verbatim>\<open>str(v)\<close> for a value \<^verbatim>\<open>v\<close>.\<close>

datatype cell = Text string | Str_of json

text \<open>The lines that the commands print, with the values that their f-strings format; a
  row stands for its cells joined by tabs.\<close>

datatype message =
    People_headers
  | People_row "cell list"
  | People_config_missing error string
  | People_config_invalid error
  | People_request_failed error
  | People_unexpected error
  | Teams_headers
  | Teams_row "cell list"
  | Teams_error error
  | Error_fetching_data int
  | Default_configuration_created string
  | Service_type_not_found string
  | Team_position_not_found "string option" string
  | Successfully_removed json "string option" string
  | Failed_to_remove json int
  | All_assignments_removed "string option" string

record 'w io =
  world :: 'w
  exchanges :: "(request \<times> http_result) list"
  files :: "string \<Rightarrow> config_file"
  stdout :: "message list"

definition send :: "'w server \<Rightarrow> request \<Rightarrow> 'w io \<Rightarrow> http_result \<times> 'w io" where
  "send server rq io =
     (case server (world io) rq of
        (res, w) \<Rightarrow> (res, io\<lparr>world := w, exchanges := exchanges io @ [(rq, res)]\<rparr>))"

definition print :: "message \<Rightarrow> 'w io \<Rightarrow> 'w io" where
  "print msg io = io\<lparr>stdout := stdout io @ [msg]\<rparr>"

text \<open>\<^verbatim>\<open>response.raise_for_status()\<close> of the \<^verbatim>\<open>requests\<close> library raises HTTPError for a
  client error (4xx) or a server error (5xx) status, and returns for every other status.\<close>

definition raise_for_status :: "response \<Rightarrow> error + unit" where
  "raise_for_status r =
     (if 400 \<le> status_code r \<and> status_code r < 600 then Inl (HTTPError (status_code r))
      else Inr ())"

definition response_json :: "response \<Rightarrow> error + json" where
  "response_json r = (case body r of None \<Rightarrow> Inl JSONDecodeError | Some v \<Rightarrow> Inr v)"

section \<open>\<^verbatim>\<open>load_authentication\<close>\<close>

text \<open>Line 9. The constant stands for the path that \<^verbatim>\<open>os.path.expanduser\<close> returns.\<close>

definition DEFAULT_CONFIG_PATH :: string where
  "DEFAULT_CONFIG_PATH = ''~/.planningcenter_toolkit/pat.yaml''"

text \<open>Lines 11-27. \<^verbatim>\<open>config.get\<close> raises AttributeError when the file does not hold a
  mapping (an empty file loads as \<^verbatim>\<open>None\<close>).\<close>

definition load_authentication :: "(string \<Rightarrow> config_file) \<Rightarrow> string \<Rightarrow> error + auth" where
  "load_authentication fs config_path =
     (case fs config_path of
        Missing \<Rightarrow> Inl (FileNotFoundError config_path)
      | Malformed \<Rightarrow> Inl YAMLError
      | Yaml config \<Rightarrow>
          bindE (get_method config ''client_id'' JNull) (\<lambda>client_id.
          bindE (get_method config ''client_secret'' JNull) (\<lambda>client_secret.
            if \<not> truthy client_id \<or> \<not> truthy client_secret then
              Inl (ValueError ''The YAML file must contain both 'client_id' and 'client_secret'.'')
            else Inr (client_id, client_secret))))"

section \<open>\<^verbatim>\<open>fetch_people\<close>: the pages\<close>

definition people_url :: json where
  "people_url = JStr ''https://api.planningcenteronline.com/people/v2/people''"

definition people_params :: "(string \<times> json) list" where
  "people_params =
     [(''include'', JStr ''phone_numbers,emails,addresses,households''), (''per_page'', JNum 100)]"

text \<open>Lines 49-130: the loop over the elements of \<^verbatim>\<open>data["data"]\<close>, from the element where
  it stands; it breaks once \<^verbatim>\<open>people_list\<close> has \<^verbatim>\<open>limit\<close> elements.\<close>

fun page_loop :: "json \<Rightarrow> int \<Rightarrow> json list \<Rightarrow> person_info list \<Rightarrow> error + person_info list" where
  "page_loop data limit [] people_list = Inr people_list"
| "page_loop data limit (person # rest) people_list =
     (if limit \<le> int (length people_list) then Inr people_list
      else bindE (flatten_person data person) (\<lambda>person_info.
             page_loop data limit rest (people_list @ [person_info])))"

text \<open>Lines 45-136: what one response does to \<^verbatim>\<open>people_list\<close>, and the next page to fetch
  (none after the \<^verbatim>\<open>break\<close> of line 134).\<close>

definition people_page :: "int \<Rightarrow> response \<Rightarrow> person_info list \<Rightarrow> error + person_info list \<times> json option" where
  "people_page limit response people_list =
     bindE (raise_for_status response) (\<lambda>_.
     bindE (response_json response) (\<lambda>data.
     bindE (getitem data ''data'') (\<lambda>d.
     bindE (iter d) (\<lambda>persons.
     bindE (page_loop data limit persons people_list) (\<lambda>people_list'.
       if limit \<le> int (length people_list') then Inr (people_list', None)
       else
         bindE (get_method data ''links'' (JObj [])) (\<lambda>links.
         bindE (get_method links ''next'' JNull) (\<lambda>next_page.
           Inr (people_list', Some next_page))))))))"

text \<open>Lines 43-138: the \<^verbatim>\<open>while\<close> loop. It may run forever (a server can always name a
  next page), so the model counts iterations down from \<^verbatim>\<open>fuel\<close> and yields \<^verbatim>\<open>None\<close> when
  the count is used up before the loop ends.\<close>

fun fetch_people_loop ::
  "nat \<Rightarrow> 'w server \<Rightarrow> auth \<Rightarrow> int \<Rightarrow> json \<Rightarrow> person_info list \<Rightarrow> 'w io
     \<Rightarrow> ((error + person_info list) \<times> 'w io) option" where
  "fetch_people_loop 0 server auth limit next_page people_list io = None"
| "fetch_people_loop (Suc fuel) server auth limit next_page people_list io =
     (if \<not> truthy next_page then Some (Inr people_list, io)
      else
        (case send server (Get (Url next_page) auth people_params) io of
           (Raises, io1) \<Rightarrow> Some (Inl RequestException, io1)
         | (Responds response, io1) \<Rightarrow>
             (case people_page limit response people_list of
                Inl e \<Rightarrow> Some (Inl e, io1)
              | Inr (people_list', None) \<Rightarrow> Some (Inr people_list', io1)
              | Inr (people_list', Some next_page') \<Rightarrow>
                  fetch_people_loop fuel server auth limit next_page' people_list' io1)))"

definition fetch_people ::
  "nat \<Rightarrow> 'w server \<Rightarrow> json \<Rightarrow> json \<Rightarrow> int \<Rightarrow> 'w io \<Rightarrow> ((error + person_info list) \<times> 'w io) option" where
  "fetch_people fuel server client_id client_secret limit io =
     fetch_people_loop fuel server (client_id, client_secret) limit people_url [] io"

section \<open>The \<^verbatim>\<open>people\<close> command\<close>










section \<open>\<^verbatim>\<open>create_default_config\<close> and \<^verbatim>\<open>init\<close>\<close>

definition default_config :: json where
  "default_config =
     JObj [(''client_id'', JStr ''your_client_id_here''),
           (''client_secret'', JStr ''your_client_secret_here'')]"

text \<open>Lines 262-279, on a file system that accepts the write.\<close>

definition create_default_config :: "'w io \<Rightarrow> 'w io" where
  "create_default_config io =
     print (Default_configuration_created DEFAULT_CONFIG_PATH)
       (io\<lparr>files := (files io)(DEFAULT_CONFIG_PATH := Yaml default_config)\<rparr>)"

text \<open>\<^verbatim>\<open>def create_default_config():\<close> has no parameter: a call that passes arguments raises
  TypeError before the body runs.\<close>

definition call_create_default_config :: "json list \<Rightarrow> 'w io \<Rightarrow> (error + unit) \<times> 'w io" where
  "call_create_default_config args io =
     (if args = [] then (Inr (), create_default_config io) else (Inl TypeError, io))"

text \<open>Lines 287-291: \<^verbatim>\<open>create_default_config(config)\<close>.\<close>

definition init :: "string \<Rightarrow> 'w io \<Rightarrow> (error + unit) \<times> 'w io" where
  "init config io = call_create_default_config [JStr config] io"

section \<open>\<^verbatim>\<open>fetch_teams\<close>\<close>

record team =
  team_id :: json
  team_name :: json
  positions :: json

definition teams_url :: json where
  "teams_url = JStr ''https://api.planningcenteronline.com/services/v2/teams''"

text \<open>One element of the list comprehension of line 305.\<close>

definition team_entry :: "json \<Rightarrow> error + team" where
  "team_entry t =
     bindE (getitem t ''id'') (\<lambda>i.
     bindE (getitem t ''attributes'') (\<lambda>a.
     bindE (getitem a ''name'') (\<lambda>n.
     bindE (get_method a ''positions'' (JArr [])) (\<lambda>p.
       Inr \<lparr>team_id = i, team_name = n, positions = p\<rparr>))))"

text \<open>\<^verbatim>\<open>xs[:limit]\<close>: a negative \<^verbatim>\<open>limit\<close> counts from the end.\<close>

definition slice_to :: "'a list \<Rightarrow> int \<Rightarrow> 'a list" where
  "slice_to xs limit =
     (if 0 \<le> limit then take (nat limit) xs else take (length xs - nat (- limit)) xs)"

definition fetch_teams ::
  "'w server \<Rightarrow> json \<Rightarrow> json \<Rightarrow> int \<Rightarrow> 'w io \<Rightarrow> (error + team list) \<times> 'w io" where
  "fetch_teams server client_id client_secret limit io =
     (case send server (Get (Url teams_url) (client_id, client_secret) []) io of
        (Raises, io1) \<Rightarrow> (Inl RequestException, io1)
      | (Responds response, io1) \<Rightarrow>
          (bindE (raise_for_status response) (\<lambda>_.
           bindE (response_json response) (\<lambda>data.
           bindE (getitem data ''data'') (\<lambda>d.
           bindE (iter d) (\<lambda>teams.
           bindE (mapE team_entry teams) (\<lambda>entries. Inr (slice_to entries limit)))))),
           io1))"

section \<open>\<^verbatim>\<open>fetch_people_in_team\<close> and the \<^verbatim>\<open>teams\<close> command\<close>








section \<open>\<^verbatim>\<open>get_paginated_results\<close>\<close>

text \<open>Lines 378-384 after the status check: the records of the page appended to
  \<^verbatim>\<open>results\<close>, and the next URL.\<close>

definition results_page :: "response \<Rightarrow> json list \<Rightarrow> error + json list \<times> json" where
  "results_page response results =
     bindE (response_json response) (\<lambda>data.
     bindE (getitem data ''data'') (\<lambda>d.
     bindE (iter d) (\<lambda>records.
     bindE (getitem data ''links'') (\<lambda>links.
     bindE (get_method links ''next'' JNull) (\<lambda>next_url.
       Inr (results @ records, next_url))))))"

text \<open>Lines 377-385: the \<^verbatim>\<open>while\<close> loop, with \<^verbatim>\<open>fuel\<close> as in \<open>fetch_people_loop\<close>.\<close>

fun get_paginated_loop ::
  "nat \<Rightarrow> 'w server \<Rightarrow> auth \<Rightarrow> url \<Rightarrow> json list \<Rightarrow> 'w io \<Rightarrow> ((error + json list) \<times> 'w io) option" where
  "get_paginated_loop 0 server auth url results io = None"
| "get_paginated_loop (Suc fuel) server auth url results io =
     (if \<not> url_truthy url then Some (Inr results, io)
      else
        (case send server (Get url auth []) io of
           (Raises, io1) \<Rightarrow> Some (Inl RequestException, io1)
         | (Responds response, io1) \<Rightarrow>
             if status_code response \<noteq> 200 then
               Some (Inr results, print (Error_fetching_data (status_code response)) io1)
             else
               (case results_page response results of
                  Inl e \<Rightarrow> Some (Inl e, io1)
                | Inr (results', next_url) \<Rightarrow>
                    get_paginated_loop fuel server auth (Url next_url) results' io1)))"

definition get_paginated_results ::
  "nat \<Rightarrow> 'w server \<Rightarrow> url \<Rightarrow> auth \<Rightarrow> 'w io \<Rightarrow> ((error + json list) \<times> 'w io) option" where
  "get_paginated_results fuel server url auth io = get_paginated_loop fuel server auth url [] io"

section \<open>\<^verbatim>\<open>team_position\<close>\<close>

definition service_types_url :: json where
  "service_types_url = JStr ''https://api.planningcenteronline.com/services/v2/service_types''"

text \<open>A command line option: a string, or \<^verbatim>\<open>None\<close> when the option is not given.\<close>

fun option_value :: "string option \<Rightarrow> json" where
  "option_value None = JNull"
| "option_value (Some s) = JStr s"

text \<open>\<^verbatim>\<open>next((x["id"] for x in xs if x["attributes"]["name"] == name), None)\<close> for a
  \<^verbatim>\<open>name\<close> that is a string or \<^verbatim>\<open>None\<close>.\<close>

fun find_id :: "json list \<Rightarrow> json \<Rightarrow> error + json" where
  "find_id [] name = Inr JNull"
| "find_id (x # xs) name =
     bindE (getitem x ''attributes'') (\<lambda>a.
     bindE (getitem a ''name'') (\<lambda>n.
       if n = name then getitem x ''id'' else find_id xs name))"

text \<open>Lines 438-446: the loop over \<^verbatim>\<open>assignments\<close>.\<close>

fun remove_assignments ::
  "'w server \<Rightarrow> auth \<Rightarrow> json \<Rightarrow> json \<Rightarrow> string \<Rightarrow> string option \<Rightarrow> json list \<Rightarrow> 'w io
     \<Rightarrow> (error + unit) \<times> 'w io" where
  "remove_assignments server auth service_type_id team_position_id service_type_name
       team_position_name [] io = (Inr (), io)"
| "remove_assignments server auth service_type_id team_position_id service_type_name
       team_position_name (assignment # rest) io =
     (case getitem assignment ''id'' of
        Inl e \<Rightarrow> (Inl e, io)
      | Inr assignment_id \<Rightarrow>
          (case send server
                  (Delete (Assignment_url service_type_id team_position_id assignment_id) auth) io of
             (Raises, io1) \<Rightarrow> (Inl RequestException, io1)
           | (Responds delete_response, io1) \<Rightarrow>
               remove_assignments server auth service_type_id team_position_id service_type_name
                 team_position_name rest
                 (print
                    (if status_code delete_response = 204 then
                       Successfully_removed assignment_id team_position_name service_type_name
                     else Failed_to_remove assignment_id (status_code delete_response))
                    io1)))"

text \<open>Lines 437-448: step 4 and the last line of the command.\<close>

definition clear_assignments ::
  "'w server \<Rightarrow> auth \<Rightarrow> json \<Rightarrow> json \<Rightarrow> string \<Rightarrow> string option \<Rightarrow> json list \<Rightarrow> 'w io
     \<Rightarrow> (error + unit) \<times> 'w io" where
  "clear_assignments server auth service_type_id team_position_id service_type_name
       team_position_name assignments io =
     (case remove_assignments server auth service_type_id team_position_id service_type_name
             team_position_name assignments io of
        (Inl e, io1) \<Rightarrow> (Inl e, io1)
      | (Inr u, io1) \<Rightarrow>
          (Inr (), print (All_assignments_removed team_position_name service_type_name) io1))"

text \<open>Lines 409-448. Each of the three calls of \<^verbatim>\<open>get_paginated_results\<close> may use up to
  \<^verbatim>\<open>fuel\<close> iterations.\<close>

definition team_position ::
  "nat \<Rightarrow> 'w server \<Rightarrow> string \<Rightarrow> string \<Rightarrow> string option \<Rightarrow> 'w io \<Rightarrow> ((error + unit) \<times> 'w io) option" where
  "team_position fuel server config service_type_name team_position_name io =
     (case load_authentication (files io) config of
        Inl e \<Rightarrow> Some (Inl e, io)
      | Inr auth \<Rightarrow>
          (case get_paginated_results fuel server (Url service_types_url) auth io of
             None \<Rightarrow> None
           | Some (Inl e, io1) \<Rightarrow> Some (Inl e, io1)
           | Some (Inr service_types, io1) \<Rightarrow>
               (case find_id service_types (JStr service_type_name) of
                  Inl e \<Rightarrow> Some (Inl e, io1)
                | Inr service_type_id \<Rightarrow>
                    if \<not> truthy service_type_id then
                      Some (Inr (), print (Service_type_not_found service_type_name) io1)
                    else
                      (case get_paginated_results fuel server (Team_positions_url service_type_id)
                              auth io1 of
                         None \<Rightarrow> None
                       | Some (Inl e, io2) \<Rightarrow> Some (Inl e, io2)
                       | Some (Inr team_positions, io2) \<Rightarrow>
                           (case find_id team_positions (option_value team_position_name) of
                              Inl e \<Rightarrow> Some (Inl e, io2)
                            | Inr team_position_id \<Rightarrow>
                                if \<not> truthy team_position_id then
                                  Some (Inr (),
                                    print (Team_position_not_found team_position_name
                                             service_type_name) io2)
                                else
                                  (case get_paginated_results fuel server
                                          (Assignments_url service_type_id team_position_id)
                                          auth io2 of
                                     None \<Rightarrow> None
                                   | Some (Inl e, io3) \<Rightarrow> Some (Inl e, io3)
                                   | Some (Inr assignments, io3) \<Rightarrow>
                                       Some (clear_assignments server auth service_type_id
                                               team_position_id service_type_name
                                               team_position_name assignments io3)))))))"

section \<open>The vocabulary of the properties\<close>

text \<open>
  The definitions of this section are not part of the program: they say, in the words of
  the specification, what the program is compared with.
\<close>

subsection \<open>Resource records and the included set\<close>

text \<open>The value of the key \<open>k\<close> of a dict, when the value is a dict that has the key.\<close>

definition field :: "json \<Rightarrow> string \<Rightarrow> json option" where
  "field j k = (case j of JObj kvs \<Rightarrow> map_of kvs k | _ \<Rightarrow> None)"

text \<open>The attribute \<open>k\<close> of a resource record, when it is present.\<close>

definition attribute :: "json \<Rightarrow> string \<Rightarrow> json option" where
  "attribute r k = (case field r ''attributes'' of None \<Rightarrow> None | Some a \<Rightarrow> field a k)"

definition attribute_or_null :: "json \<Rightarrow> string \<Rightarrow> json" where
  "attribute_or_null r k = (case attribute r k of None \<Rightarrow> JNull | Some v \<Rightarrow> v)"

text \<open>The record of the included set that a reference \<^verbatim>\<open>{id, type}\<close> resolves to.\<close>

definition resolve :: "included \<Rightarrow> json \<Rightarrow> json option" where
  "resolve included_data ref =
     (case field ref ''id'' of
        None \<Rightarrow> None
      | Some i \<Rightarrow> (case hash_key i of Inl e \<Rightarrow> None | Inr h \<Rightarrow> included_data h))"

text \<open>The elements of an array.\<close>

definition elements :: "json \<Rightarrow> json list" where
  "elements d = (case iter d of Inl e \<Rightarrow> [] | Inr xs \<Rightarrow> xs)"

text \<open>The relationship array of one relationship, and the relationship array \<open>c\<close> of a
  person: empty when the person has no such relationship.\<close>

definition rel_refs :: "json \<Rightarrow> json list" where
  "rel_refs rel_data = (case field rel_data ''data'' of None \<Rightarrow> [] | Some d \<Rightarrow> elements d)"

definition refs_of :: "(string \<times> json) list \<Rightarrow> string \<Rightarrow> json list" where
  "refs_of kvs c = (case map_of kvs c of None \<Rightarrow> [] | Some rd \<Rightarrow> rel_refs rd)"

definition relationship :: "json \<Rightarrow> string \<Rightarrow> json list" where
  "relationship person c =
     (case field person ''relationships'' of
        None \<Rightarrow> []
      | Some rels \<Rightarrow> (case field rels c of None \<Rightarrow> [] | Some rel_data \<Rightarrow> rel_refs rel_data))"

text \<open>Every record of an included set is a dict with an \<^verbatim>\<open>id\<close>, hence true as a condition.\<close>

definition all_truthy :: "included \<Rightarrow> bool" where
  "all_truthy m = (\<forall>h v. m h = Some v \<longrightarrow> truthy v)"

subsection \<open>Phone numbers and emails\<close>

text \<open>The attribute \<open>k\<close> of the record that a reference resolves to.\<close>

definition resolved_attribute :: "included \<Rightarrow> string \<Rightarrow> json \<Rightarrow> json option" where
  "resolved_attribute included_data k ref =
     (case resolve included_data ref of None \<Rightarrow> None | Some r \<Rightarrow> attribute r k)"

subsection \<open>Households\<close>

text \<open>The integer that a Python integer or boolean counts as in a sum.\<close>

definition int_of :: "json \<Rightarrow> int" where
  "int_of v = (case v of JNum n \<Rightarrow> n | JBool b \<Rightarrow> (if b then 1 else 0) | _ \<Rightarrow> 0)"

definition is_int :: "json \<Rightarrow> bool" where
  "is_int v = (case v of JNum n \<Rightarrow> True | JBool b \<Rightarrow> True | _ \<Rightarrow> False)"

text \<open>The record that a reference resolves to, when its declared type is \<^verbatim>\<open>"Household"\<close>.\<close>

definition resolved_household :: "included \<Rightarrow> json \<Rightarrow> json option" where
  "resolved_household included_data ref =
     (case resolve included_data ref of
        None \<Rightarrow> None
      | Some h \<Rightarrow> if field h ''type'' = Some (JStr ''Household'') then Some h else None)"

text \<open>The \<^verbatim>\<open>member_count\<close> of a household, 0 when the attribute is absent.\<close>

definition member_count :: "json \<Rightarrow> int" where
  "member_count h = (case attribute h ''member_count'' of None \<Rightarrow> 0 | Some v \<Rightarrow> int_of v)"

definition member_count_ok :: "json \<Rightarrow> bool" where
  "member_count_ok h = (case attribute h ''member_count'' of None \<Rightarrow> True | Some v \<Rightarrow> is_int v)"

text \<open>What one reference of the households array adds to the count.\<close>

definition household_members :: "included \<Rightarrow> json \<Rightarrow> int" where
  "household_members included_data ref =
     (case resolved_household included_data ref of None \<Rightarrow> 0 | Some h \<Rightarrow> member_count h)"

subsection \<open>Addresses\<close>

text \<open>The address that a reference resolves to, when its \<^verbatim>\<open>location\<close> is exactly \<open>loc\<close>.\<close>

definition address_at :: "string \<Rightarrow> included \<Rightarrow> json \<Rightarrow> json option" where
  "address_at loc included_data ref =
     (case resolve included_data ref of
        None \<Rightarrow> None
      | Some a \<Rightarrow> if attribute a ''location'' = Some (JStr loc) then Some a else None)"

definition address_fields :: "json \<Rightarrow> json \<times> json \<times> json \<times> json" where
  "address_fields a = (attribute_or_null a ''street'', attribute_or_null a ''city'',
                       attribute_or_null a ''state'', attribute_or_null a ''zip'')"

definition home_fields :: "person_info \<Rightarrow> json \<times> json \<times> json \<times> json" where
  "home_fields s = (home_street s, home_city s, home_state s, home_zip s)"

definition work_fields :: "person_info \<Rightarrow> json \<times> json \<times> json \<times> json" where
  "work_fields s = (work_street s, work_city s, work_state s, work_zip s)"

text \<open>Overwriting the four home fields, or the four work fields, and nothing else.\<close>

definition set_home :: "json \<Rightarrow> person_info \<Rightarrow> person_info" where
  "set_home a s = s\<lparr>home_street := attribute_or_null a ''street'',
                     home_city := attribute_or_null a ''city'',
                     home_state := attribute_or_null a ''state'',
                     home_zip := attribute_or_null a ''zip''\<rparr>"

definition set_work :: "json \<Rightarrow> person_info \<Rightarrow> person_info" where
  "set_work a s = s\<lparr>work_street := attribute_or_null a ''street'',
                     work_city := attribute_or_null a ''city'',
                     work_state := attribute_or_null a ''state'',
                     work_zip := attribute_or_null a ''zip''\<rparr>"

text \<open>What one reference of the addresses array does to the record: a "Home" address
  sets the home fields, a "Work" address the work fields, anything else nothing.\<close>

definition address_update :: "included \<Rightarrow> json \<Rightarrow> person_info \<Rightarrow> person_info" where
  "address_update included_data ref s =
     (case address_at ''Home'' included_data ref of
        Some a \<Rightarrow> set_home a s
      | None \<Rightarrow>
          (case address_at ''Work'' included_data ref of
             Some a \<Rightarrow> set_work a s
           | None \<Rightarrow> s))"

text \<open>The fields of the last address of a list, \<open>d\<close> when the list is empty.\<close>

definition last_address ::
  "json \<times> json \<times> json \<times> json \<Rightarrow> json list \<Rightarrow> json \<times> json \<times> json \<times> json" where
  "last_address d as = (if as = [] then d else address_fields (last as))"

definition no_address :: "json \<times> json \<times> json \<times> json" where
  "no_address = (JNull, JNull, JNull, JNull)"

subsection \<open>Pages\<close>

text \<open>The \<^verbatim>\<open>data\<close> array of a page.\<close>

definition page_records :: "json \<Rightarrow> json list" where
  "page_records data = (case field data ''data'' of None \<Rightarrow> [] | Some d \<Rightarrow> elements d)"

text \<open>The concatenation of the \<^verbatim>\<open>data\<close> arrays of a list of pages, in page order, each
  record with the page it came on (whose included set resolves its relationships).\<close>

definition all_records :: "json list \<Rightarrow> (json \<times> json) list" where
  "all_records pages = concat (map (\<lambda>data. map (Pair data) (page_records data)) pages)"

text \<open>The pages that a run has fetched: the bodies of the responses to the requests it
  has added to the log.\<close>

definition page_of_exchange :: "request \<times> http_result \<Rightarrow> json option" where
  "page_of_exchange ex = (case snd ex of Raises \<Rightarrow> None | Responds r \<Rightarrow> body r)"

definition new_exchanges :: "'w io \<Rightarrow> 'w io \<Rightarrow> (request \<times> http_result) list" where
  "new_exchanges io io' = drop (length (exchanges io)) (exchanges io')"

definition pages_fetched :: "'w io \<Rightarrow> 'w io \<Rightarrow> json list" where
  "pages_fetched io io' = List.map_filter page_of_exchange (new_exchanges io io')"

text \<open>The flattening of a record of a page.\<close>

definition flatten_record :: "json \<times> json \<Rightarrow> error + person_info" where
  "flatten_record rec = flatten_person (fst rec) (snd rec)"

text \<open>What the loop of \<open>fetch_people\<close> has done when it returns \<open>people\<close>, having started
  with \<open>pl\<close> and made the exchanges \<open>exs\<close>.\<close>

definition fetched ::
  "int \<Rightarrow> person_info list \<Rightarrow> person_info list \<Rightarrow> (request \<times> http_result) list \<Rightarrow> bool" where
  "fetched limit pl people exs =
     (\<exists>pages infos.
        map page_of_exchange exs = map Some pages
      \<and> people = pl @ infos
      \<and> map flatten_record (take (nat (limit - int (length pl))) (all_records pages)) = map Inr infos
      \<and> (\<forall>k. Suc k < length pages \<longrightarrow>
             int (length pl) + int (length (all_records (take (Suc k) pages))) < limit)
      \<and> (\<forall>ex \<in> set exs. \<exists>r. snd ex = Responds r \<and> raise_for_status r = Inr ()))"

subsection \<open>Deletions\<close>

text \<open>The id of an assignment.\<close>

definition id_of :: "json \<Rightarrow> json" where
  "id_of a = (case field a ''id'' of None \<Rightarrow> JNull | Some i \<Rightarrow> i)"

text \<open>The statuses that the server returns to the delete requests for a list of
  assignments, sent one after the other from the state \<open>w\<close>: defined when every assignment
  has an id and every request is answered.\<close>

fun delete_statuses ::
  "'w server \<Rightarrow> auth \<Rightarrow> json \<Rightarrow> json \<Rightarrow> json list \<Rightarrow> 'w \<Rightarrow> int list option" where
  "delete_statuses server auth service_type_id team_position_id [] w = Some []"
| "delete_statuses server auth service_type_id team_position_id (a # as) w =
     (case field a ''id'' of
        None \<Rightarrow> None
      | Some i \<Rightarrow>
          (case server w (Delete (Assignment_url service_type_id team_position_id i) auth) of
             (Raises, w') \<Rightarrow> None
           | (Responds r, w') \<Rightarrow>
               map_option (Cons (status_code r))
                 (delete_statuses server auth service_type_id team_position_id as w')))"

text \<open>The line that reports the deletion of an assignment whose request returned \<open>code\<close>.\<close>

definition removal_message :: "string \<Rightarrow> string option \<Rightarrow> json \<times> int \<Rightarrow> message" where
  "removal_message service_type_name team_position_name p =
     (if snd p = 204 then Successfully_removed (id_of (fst p)) team_position_name service_type_name
      else Failed_to_remove (id_of (fst p)) (snd p))"

fun is_success :: "message \<Rightarrow> bool" where
  "is_success (Successfully_removed i p s) = True"
| "is_success _ = False"

fun is_failure :: "message \<Rightarrow> bool" where
  "is_failure (Failed_to_remove i c) = True"
| "is_failure _ = False"

subsection \<open>Credentials\<close>


section \<open>A page to run the program on\<close>

text \<open>One person with two households (3 and 4 members), two home addresses, one work
  address, an address whose location is written "home", two phone numbers around a
  reference that is not in the included set, and one email.\<close>

definition example_person :: json where
  "example_person =
     JObj [(''id'', JStr ''1''),
           (''type'', JStr ''Person''),
           (''attributes'', JObj [(''first_name'', JStr ''Ada''), (''last_name'', JStr ''Byron'')]),
           (''relationships'',
              JObj [(''households'',
                       JObj [(''data'', JArr [JObj [(''id'', JStr ''h1''), (''type'', JStr ''Household'')],
                                              JObj [(''id'', JStr ''h2''), (''type'', JStr ''Household'')]])]),
                    (''addresses'',
                       JObj [(''data'', JArr [JObj [(''id'', JStr ''a1''), (''type'', JStr ''Address'')],
                                              JObj [(''id'', JStr ''a2''), (''type'', JStr ''Address'')],
                                              JObj [(''id'', JStr ''a3''), (''type'', JStr ''Address'')],
                                              JObj [(''id'', JStr ''a4''), (''type'', JStr ''Address'')]])]),
                    (''phone_numbers'',
                       JObj [(''data'', JArr [JObj [(''id'', JStr ''p1''), (''type'', JStr ''PhoneNumber'')],
                                              JObj [(''id'', JStr ''p9''), (''type'', JStr ''PhoneNumber'')],
                                              JObj [(''id'', JStr ''p2''), (''type'', JStr ''PhoneNumber'')]])]),
                    (''emails'',
                       JObj [(''data'', JArr [JObj [(''id'', JStr ''e1''), (''type'', JStr ''Email'')]])])])]"

definition example_h1 :: json where
  "example_h1 = JObj [(''id'', JStr ''h1''), (''type'', JStr ''Household''),
                      (''attributes'', JObj [(''member_count'', JNum 3)])]"

definition example_h2 :: json where
  "example_h2 = JObj [(''id'', JStr ''h2''), (''type'', JStr ''Household''),
                      (''attributes'', JObj [(''member_count'', JNum 4)])]"

definition example_a1 :: json where
  "example_a1 = JObj [(''id'', JStr ''a1''), (''type'', JStr ''Address''),
                      (''attributes'', JObj [(''location'', JStr ''Home''), (''street'', JStr ''1 Old Rd''),
                                             (''city'', JStr ''Leeds''), (''state'', JStr ''WY''),
                                             (''zip'', JStr ''LS1'')])]"

definition example_a2 :: json where
  "example_a2 = JObj [(''id'', JStr ''a2''), (''type'', JStr ''Address''),
                      (''attributes'', JObj [(''location'', JStr ''Work''), (''street'', JStr ''9 Mill St''),
                                             (''city'', JStr ''York''), (''state'', JStr ''NY''),
                                             (''zip'', JStr ''YO1'')])]"

definition example_a3 :: json where
  "example_a3 = JObj [(''id'', JStr ''a3''), (''type'', JStr ''Address''),
                      (''attributes'', JObj [(''location'', JStr ''Home''), (''street'', JStr ''2 New Rd''),
                                             (''city'', JStr ''Hull'')])]"

definition example_a4 :: json where
  "example_a4 = JObj [(''id'', JStr ''a4''), (''type'', JStr ''Address''),
                      (''attributes'', JObj [(''location'', JStr ''home''), (''street'', JStr ''3 Low Rd'')])]"

definition example_p1 :: json where
  "example_p1 = JObj [(''id'', JStr ''p1''), (''type'', JStr ''PhoneNumber''),
                      (''attributes'', JObj [(''number'', JStr ''555-0100'')])]"

definition example_p2 :: json where
  "example_p2 = JObj [(''id'', JStr ''p2''), (''type'', JStr ''PhoneNumber''),
                      (''attributes'', JObj [(''number'', JStr ''555-0199'')])]"

definition example_e1 :: json where
  "example_e1 = JObj [(''id'', JStr ''e1''), (''type'', JStr ''Email''),
                      (''attributes'', JObj [(''address'', JStr ''ada@example.org'')])]"

definition example_page :: json where
  "example_page =
     JObj [(''data'', JArr [example_person]),
           (''included'', JArr [example_h1, example_h2, example_a1, example_a2, example_a3,
                                 example_a4, example_p1, example_p2, example_e1]),
           (''links'', JObj [])]"

definition example_included :: included where
  "example_included =
     [KStr ''h1'' \<mapsto> example_h1, KStr ''h2'' \<mapsto> example_h2, KStr ''a1'' \<mapsto> example_a1,
      KStr ''a2'' \<mapsto> example_a2, KStr ''a3'' \<mapsto> example_a3, KStr ''a4'' \<mapsto> example_a4,
      KStr ''p1'' \<mapsto> example_p1, KStr ''p2'' \<mapsto> example_p2, KStr ''e1'' \<mapsto> example_e1]"

section \<open>Servers to run the program against\<close>

text \<open>Credentials, and the state before a command: no request sent, nothing printed, no
  configuration file.\<close>

definition example_id :: json where
  "example_id = JStr ''app-id''"

definition example_secret :: json where
  "example_secret = JStr ''app-secret''"

definition io0 :: "unit io" where
  "io0 = \<lparr>world = (), exchanges = [], files = (\<lambda>p. Missing), stdout = []\<rparr>"

text \<open>A server with four people on two pages of two; it answers no other URL.\<close>

definition plain_person :: "string \<Rightarrow> json" where
  "plain_person i = JObj [(''id'', JStr i), (''type'', JStr ''Person''), (''attributes'', JObj [])]"

definition page_one :: json where
  "page_one =
     JObj [(''data'', JArr [plain_person ''1'', plain_person ''2'']),
           (''links'', JObj [(''next'', JStr ''https://example.org/people?offset=2'')])]"

definition page_two :: json where
  "page_two =
     JObj [(''data'', JArr [plain_person ''3'', plain_person ''4'']),
           (''links'', JObj [(''next'', JStr ''https://example.org/people?offset=4'')])]"

definition paged_server :: "unit server" where
  "paged_server w rq =
     (case rq of
        Get u a ps \<Rightarrow>
          if u = Url people_url then Responds \<lparr>status_code = 200, body = Some page_one\<rparr>
          else if u = Url (JStr ''https://example.org/people?offset=2'') then
            Responds \<lparr>status_code = 200, body = Some page_two\<rparr>
          else Raises
      | Delete u a \<Rightarrow> Raises,
      w)"

definition paged_exchanges :: "(request \<times> http_result) list" where
  "paged_exchanges =
     [(Get (Url people_url) (example_id, example_secret) people_params,
       Responds \<lparr>status_code = 200, body = Some page_one\<rparr>),
      (Get (Url (JStr ''https://example.org/people?offset=2'')) (example_id, example_secret)
         people_params,
       Responds \<lparr>status_code = 200, body = Some page_two\<rparr>)]"

text \<open>A server that answers every request with the same status and body.\<close>

definition last_page :: json where
  "last_page = JObj [(''data'', JArr [plain_person ''5'']), (''links'', JObj [(''next'', JNull)])]"

definition status_server :: "int \<Rightarrow> json option \<Rightarrow> unit server" where
  "status_server code page w rq = (Responds \<lparr>status_code = code, body = page\<rparr>, w)"

text \<open>Three assignments of a team position.\<close>

definition example_assignments :: "json list" where
  "example_assignments =
     [JObj [(''id'', JStr ''a1''), (''type'', JStr ''PersonTeamPositionAssignment'')],
      JObj [(''id'', JStr ''a2''), (''type'', JStr ''PersonTeamPositionAssignment'')],
      JObj [(''id'', JStr ''a3''), (''type'', JStr ''PersonTeamPositionAssignment'')]]"

text \<open>A server that deletes every assignment but \<open>a2\<close>, which it does not find.\<close>

definition deleting_server :: "unit server" where
  "deleting_server w rq =
     (case rq of
        Delete u a \<Rightarrow>
          (case u of
             Assignment_url st tp i \<Rightarrow>
               Responds \<lparr>status_code = (if i = JStr ''a2'' then 404 else 204), body = None\<rparr>
           | _ \<Rightarrow> Raises)
      | Get u a ps \<Rightarrow> Raises,
      w)"

definition team_record :: "string \<Rightarrow> string \<Rightarrow> json" where
  "team_record i n = JObj [(''id'', JStr i), (''type'', JStr ''Team''),
                           (''attributes'', JObj [(''name'', JStr n)])]"

definition teams_page_one :: json where
  "teams_page_one =
     JObj [(''data'', JArr [team_record ''t1'' ''Band'']),
           (''links'', JObj [(''next'', JStr ''https://example.org/teams?offset=1'')])]"

definition teams_page_two :: json where
  "teams_page_two =
     JObj [(''data'', JArr [team_record ''t2'' ''Sound'']),
           (''links'', JObj [(''next'', JNull)])]"

text \<open>A server with two teams, one on each page.\<close>

definition teams_server :: "unit server" where
  "teams_server w rq =
     (case rq of
        Get u a ps \<Rightarrow>
          if u = Url teams_url then Responds \<lparr>status_code = 200, body = Some teams_page_one\<rparr>
          else if u = Url (JStr ''https://example.org/teams?offset=1'') then
            Responds \<lparr>status_code = 200, body = Some teams_page_two\<rparr>
          else Raises
      | Delete u a \<Rightarrow> Raises,
      w)"



text \<open>A server with one service type, one team position and the three assignments, which
  deletes every assignment but \<open>a2\<close>; and a state with a valid configuration file.\<close>

definition clearing_server :: "unit server" where
  "clearing_server w rq =
     (case rq of
        Get u a ps \<Rightarrow>
          if u = Url service_types_url then
            Responds \<lparr>status_code = 200,
                      body = Some (JObj [(''data'', JArr [JObj [(''id'', JStr ''st1''),
                                            (''attributes'', JObj [(''name'', JStr ''English Worship Service'')])]]),
                                         (''links'', JObj [(''next'', JNull)])])\<rparr>
          else if u = Team_positions_url (JStr ''st1'') then
            Responds \<lparr>status_code = 200,
                      body = Some (JObj [(''data'', JArr [JObj [(''id'', JStr ''tp1''),
                                            (''attributes'', JObj [(''name'', JStr ''Drums'')])]]),
                                         (''links'', JObj [])])\<rparr>
          else if u = Assignments_url (JStr ''st1'') (JStr ''tp1'') then
            Responds \<lparr>status_code = 200,
                      body = Some (JObj [(''data'', JArr example_assignments), (''links'', JObj [])])\<rparr>
          else Raises
      | Delete u a \<Rightarrow> fst (deleting_server w rq),
      w)"

definition configured :: "unit io" where
  "configured =
     io0\<lparr>files := (\<lambda>p. Yaml (JObj [(''client_id'', example_id), (''client_secret'', example_secret)]))\<rparr>"

section \<open>Lemmas\<close>

lemma bindE_Inr [simp]: "bindE (Inr v) f = f v"
  by (simp add: bindE_def)

lemma bindE_Inl [simp]: "bindE (Inl e) f = Inl e"
  by (simp add: bindE_def)

lemma bindE_Inr_iff: "bindE m f = Inr y \<longleftrightarrow> (\<exists>v. m = Inr v \<and> f v = Inr y)"
  by (cases m) simp_all

lemma getitem_field: "getitem j k = Inr v \<longleftrightarrow> field j k = Some v"
  by (cases j) (auto simp: field_def split: option.splits)

lemma foldE_invariant:
  assumes "foldE f xs s = Inr s'" and "P s"
    and "\<And>x t t'. f x t = Inr t' \<Longrightarrow> P t \<Longrightarrow> P t'"
  shows "P s'"
  using assms(1,2)
proof (induction xs arbitrary: s)
  case Nil
  then show ?case by simp
next
  case (Cons x xs)
  then show ?case by (auto simp: bindE_Inr_iff intro: assms(3))
qed

lemma truthy_if_id: "getitem v ''id'' = Inr i \<Longrightarrow> truthy v"
  by (cases v) (auto split: option.splits)

lemma included_item_truthy:
  assumes "included_item item m = Inr m'" and "all_truthy m"
  shows "all_truthy m'"
proof -
  from assms(1) obtain i h where i: "getitem item ''id'' = Inr i"
    and m': "m' = m(h \<mapsto> item)"
    by (auto simp: included_item_def bindE_Inr_iff)
  from i have "truthy item" by (rule truthy_if_id)
  with assms(2) show ?thesis
    by (simp add: m' all_truthy_def)
qed

lemma build_included_truthy:
  assumes "build_included data = Inr m"
  shows "all_truthy m"
proof -
  from assms obtain its where "foldE included_item its Map.empty = Inr m"
    by (auto simp: build_included_def bindE_Inr_iff)
  moreover have "all_truthy Map.empty"
    by (simp add: all_truthy_def)
  ultimately show ?thesis
    by (rule foldE_invariant[where P=all_truthy]) (rule included_item_truthy)
qed

lemma included_get_Inr_iff:
  "included_get m i = Inr r \<longleftrightarrow> (\<exists>h. hash_key i = Inr h \<and> r = m h)"
  by (auto simp: included_get_def bindE_Inr_iff)

lemma resolve_eq:
  "getitem ref ''id'' = Inr i \<Longrightarrow> hash_key i = Inr h \<Longrightarrow> resolve m ref = m h"
  by (simp add: resolve_def getitem_field)

lemma resolve_step:
  assumes "bindE (getitem ref ''id'') (\<lambda>i. bindE (included_get m i) (\<lambda>r.
             (case r of None \<Rightarrow> Inr s | Some p \<Rightarrow> if truthy p then cont p else Inr s))) = Inr s'"
    and "all_truthy m"
  shows "(case resolve m ref of None \<Rightarrow> Inr s | Some p \<Rightarrow> cont p) = Inr s'"
proof -
  from assms(1) obtain i h where i: "getitem ref ''id'' = Inr i" and h: "hash_key i = Inr h"
    and r: "(case m h of None \<Rightarrow> Inr s | Some p \<Rightarrow> if truthy p then cont p else Inr s) = Inr s'"
    by (auto simp: bindE_Inr_iff included_get_Inr_iff)
  have "resolve m ref = m h"
    using i h by (rule resolve_eq)
  moreover have "truthy p" if "m h = Some p" for p
    using assms(2) that by (simp add: all_truthy_def)
  ultimately show ?thesis
    using r by (simp split: option.splits)
qed

lemma phone_step_Inr:
  assumes "phone_step m ref s = Inr s'" and "all_truthy m"
  shows "s' = s\<lparr>phone_numbers := phone_numbers s @
            (case resolved_attribute m ''number'' ref of None \<Rightarrow> [] | Some n \<Rightarrow> [n])\<rparr>
         \<and> (\<forall>r. resolve m ref = Some r \<longrightarrow> attribute r ''number'' \<noteq> None)"
proof (cases "resolve m ref")
  case None
  with resolve_step[OF assms[unfolded phone_step_def]] show ?thesis
    by (simp add: resolved_attribute_def)
next
  case (Some p)
  with resolve_step[OF assms[unfolded phone_step_def]]
  obtain a n where "field p ''attributes'' = Some a" "field a ''number'' = Some n"
    and "s' = s\<lparr>phone_numbers := phone_numbers s @ [n]\<rparr>"
    by (auto simp: bindE_Inr_iff getitem_field)
  with Some show ?thesis
    by (simp add: resolved_attribute_def attribute_def)
qed

lemma email_step_Inr:
  assumes "email_step m ref s = Inr s'" and "all_truthy m"
  shows "s' = s\<lparr>emails := emails s @
            (case resolved_attribute m ''address'' ref of None \<Rightarrow> [] | Some n \<Rightarrow> [n])\<rparr>
         \<and> (\<forall>r. resolve m ref = Some r \<longrightarrow> attribute r ''address'' \<noteq> None)"
proof (cases "resolve m ref")
  case None
  with resolve_step[OF assms[unfolded email_step_def]] show ?thesis
    by (simp add: resolved_attribute_def)
next
  case (Some p)
  with resolve_step[OF assms[unfolded email_step_def]]
  obtain a n where "field p ''attributes'' = Some a" "field a ''address'' = Some n"
    and "s' = s\<lparr>emails := emails s @ [n]\<rparr>"
    by (auto simp: bindE_Inr_iff getitem_field)
  with Some show ?thesis
    by (simp add: resolved_attribute_def attribute_def)
qed

lemma add_int_Inr: "add_int n v = Inr c \<Longrightarrow> c = n + int_of v \<and> is_int v"
  by (cases v) (auto simp: int_of_def is_int_def)

lemma get_method_Inr_iff:
  "get_method j k d = Inr v \<longleftrightarrow>
     (\<exists>kvs. j = JObj kvs \<and> v = (case field j k of None \<Rightarrow> d | Some w \<Rightarrow> w))"
  by (cases j) (auto simp: field_def)

lemma get_method_Inr:
  assumes "get_method j k d = Inr v"
  shows "v = (case field j k of None \<Rightarrow> d | Some w \<Rightarrow> w)"
  using assms by (simp add: get_method_Inr_iff)

lemma household_step_Inr:
  assumes "household_step m ref s = Inr s'" and "all_truthy m"
  shows "s' = s\<lparr>household_count := household_count s + household_members m ref\<rparr>
         \<and> (\<forall>h. resolved_household m ref = Some h \<longrightarrow> member_count_ok h)"
proof (cases "resolve m ref")
  case None
  with resolve_step[OF assms[unfolded household_step_def]] show ?thesis
    by (simp add: resolved_household_def household_members_def)
next
  case (Some p)
  with resolve_step[OF assms[unfolded household_step_def]]
  obtain t where t: "field p ''type'' = Some t"
    and body: "(if t = JStr ''Household'' then
                  bindE (getitem p ''attributes'') (\<lambda>a.
                  bindE (get_method a ''member_count'' (JNum 0)) (\<lambda>member_count.
                  bindE (add_int (household_count s) member_count) (\<lambda>c.
                    Inr (s\<lparr>household_count := c\<rparr>))))
                else Inr s) = Inr s'"
    by (auto simp: bindE_Inr_iff getitem_field)
  show ?thesis
  proof (cases "t = JStr ''Household''")
    case False
    with body have "s' = s" by simp
    with False t Some show ?thesis
      by (simp add: resolved_household_def household_members_def)
  next
    case True
    with body obtain a v c where a: "field p ''attributes'' = Some a"
      and v: "get_method a ''member_count'' (JNum 0) = Inr v"
      and c: "add_int (household_count s) v = Inr c"
      and s': "s' = s\<lparr>household_count := c\<rparr>"
      by (auto simp: bindE_Inr_iff getitem_field)
    from add_int_Inr[OF c] have c': "c = household_count s + int_of v" and iv: "is_int v"
      by simp_all
    from get_method_Inr[OF v] have v': "v = (case field a ''member_count'' of None \<Rightarrow> JNum 0 | Some w \<Rightarrow> w)" .
    have mc: "member_count p = int_of v"
      using a v' by (simp add: member_count_def attribute_def int_of_def split: option.splits)
    have ok: "member_count_ok p"
      using a v' iv by (simp add: member_count_ok_def attribute_def split: option.splits)
    from True t Some have rh: "resolved_household m ref = Some p"
      by (simp add: resolved_household_def)
    with s' c' mc ok show ?thesis
      by (simp add: household_members_def)
  qed
qed

lemma address_step_Inr:
  assumes "address_step m ref s = Inr s'" and "all_truthy m"
  shows "s' = address_update m ref s"
proof (cases "resolve m ref")
  case None
  with resolve_step[OF assms[unfolded address_step_def]] show ?thesis
    by (simp add: address_update_def address_at_def)
next
  case (Some p)
  with resolve_step[OF assms[unfolded address_step_def]]
  obtain a t where a: "field p ''attributes'' = Some a" and t: "field a ''location'' = Some t"
    and body: "(if t = JStr ''Home'' then
                  bindE (get_method a ''street'' JNull) (\<lambda>street.
                  bindE (get_method a ''city'' JNull) (\<lambda>city.
                  bindE (get_method a ''state'' JNull) (\<lambda>state.
                  bindE (get_method a ''zip'' JNull) (\<lambda>zip.
                    Inr (s\<lparr>home_street := street, home_city := city,
                            home_state := state, home_zip := zip\<rparr>)))))
                else if t = JStr ''Work'' then
                  bindE (get_method a ''street'' JNull) (\<lambda>street.
                  bindE (get_method a ''city'' JNull) (\<lambda>city.
                  bindE (get_method a ''state'' JNull) (\<lambda>state.
                  bindE (get_method a ''zip'' JNull) (\<lambda>zip.
                    Inr (s\<lparr>work_street := street, work_city := city,
                            work_state := state, work_zip := zip\<rparr>)))))
                else Inr s) = Inr s'"
    by (auto simp: bindE_Inr_iff getitem_field)
  have loc: "attribute p ''location'' = Some t"
    using a t by (simp add: attribute_def)
  have att: "attribute_or_null p k = (case field a k of None \<Rightarrow> JNull | Some w \<Rightarrow> w)" for k
    using a by (simp add: attribute_or_null_def attribute_def)
  consider (home) "t = JStr ''Home''" | (work) "t = JStr ''Work''"
    | (other) "t \<noteq> JStr ''Home''" "t \<noteq> JStr ''Work''"
    by blast
  then show ?thesis
  proof cases
    case home
    with body obtain street city state zip where
      g: "get_method a ''street'' JNull = Inr street" "get_method a ''city'' JNull = Inr city"
         "get_method a ''state'' JNull = Inr state" "get_method a ''zip'' JNull = Inr zip"
      and s': "s' = s\<lparr>home_street := street, home_city := city,
                         home_state := state, home_zip := zip\<rparr>"
      by (auto simp: bindE_Inr_iff)
    have "address_update m ref s = set_home p s"
      using Some loc home by (simp add: address_update_def address_at_def)
    with s' g[THEN get_method_Inr] show ?thesis
      by (simp add: set_home_def att)
  next
    case work
    with body obtain street city state zip where
      g: "get_method a ''street'' JNull = Inr street" "get_method a ''city'' JNull = Inr city"
         "get_method a ''state'' JNull = Inr state" "get_method a ''zip'' JNull = Inr zip"
      and s': "s' = s\<lparr>work_street := street, work_city := city,
                         work_state := state, work_zip := zip\<rparr>"
      by (auto simp: bindE_Inr_iff)
    have "address_update m ref s = set_work p s"
      using Some loc work by (simp add: address_update_def address_at_def)
    with s' g[THEN get_method_Inr] show ?thesis
      by (simp add: set_work_def att)
  next
    case other
    with body have "s' = s" by simp
    moreover have "address_update m ref s = s"
      using Some loc other by (simp add: address_update_def address_at_def)
    ultimately show ?thesis by simp
  qed
qed

lemma foldE_member:
  "foldE f xs s = Inr s' \<Longrightarrow> x \<in> set xs \<Longrightarrow> \<exists>t t'. f x t = Inr t'"
  by (induction xs arbitrary: s) (auto simp: bindE_Inr_iff)

lemma map_filter_Nil [simp]: "List.map_filter f [] = []"
  by (simp add: List.map_filter_def)

lemma map_filter_Cons:
  "List.map_filter f (x # xs) = (case f x of None \<Rightarrow> [] | Some y \<Rightarrow> [y]) @ List.map_filter f xs"
  by (simp add: List.map_filter_def split: option.splits)

lemma map_filter_snoc:
  "List.map_filter f (xs @ [x]) = List.map_filter f xs @ (case f x of None \<Rightarrow> [] | Some y \<Rightarrow> [y])"
  by (simp add: List.map_filter_def split: option.splits)

lemma phones_foldE:
  assumes "all_truthy m"
  shows "foldE (phone_step m) refs s = Inr s' \<Longrightarrow>
         s' = s\<lparr>phone_numbers := phone_numbers s @ List.map_filter (resolved_attribute m ''number'') refs\<rparr>"
proof (induction refs arbitrary: s)
  case Nil
  then show ?case by simp
next
  case (Cons ref refs)
  from Cons.prems obtain t where t: "phone_step m ref s = Inr t"
    and rest: "foldE (phone_step m) refs t = Inr s'"
    by (auto simp: bindE_Inr_iff)
  from phone_step_Inr[OF t assms] Cons.IH[OF rest] show ?case
    by (simp add: map_filter_Cons split: option.splits)
qed

lemma emails_foldE:
  assumes "all_truthy m"
  shows "foldE (email_step m) refs s = Inr s' \<Longrightarrow>
         s' = s\<lparr>emails := emails s @ List.map_filter (resolved_attribute m ''address'') refs\<rparr>"
proof (induction refs arbitrary: s)
  case Nil
  then show ?case by simp
next
  case (Cons ref refs)
  from Cons.prems obtain t where t: "email_step m ref s = Inr t"
    and rest: "foldE (email_step m) refs t = Inr s'"
    by (auto simp: bindE_Inr_iff)
  from email_step_Inr[OF t assms] Cons.IH[OF rest] show ?case
    by (simp add: map_filter_Cons split: option.splits)
qed

lemma households_foldE:
  assumes "all_truthy m"
  shows "foldE (household_step m) refs s = Inr s' \<Longrightarrow>
         s' = s\<lparr>household_count := household_count s + sum_list (map (household_members m) refs)\<rparr>"
proof (induction refs arbitrary: s)
  case Nil
  then show ?case by simp
next
  case (Cons ref refs)
  from Cons.prems obtain t where t: "household_step m ref s = Inr t"
    and rest: "foldE (household_step m) refs t = Inr s'"
    by (auto simp: bindE_Inr_iff)
  from household_step_Inr[OF t assms] Cons.IH[OF rest] show ?case
    by simp
qed

lemma addresses_foldE:
  assumes "all_truthy m"
  shows "foldE (address_step m) refs s = Inr s' \<Longrightarrow> s' = fold (address_update m) refs s"
proof (induction refs arbitrary: s)
  case Nil
  then show ?case by simp
next
  case (Cons ref refs)
  from Cons.prems obtain t where t: "address_step m ref s = Inr t"
    and rest: "foldE (address_step m) refs t = Inr s'"
    by (auto simp: bindE_Inr_iff)
  from address_step_Inr[OF t assms] Cons.IH[OF rest] show ?case
    by simp
qed

lemma address_at_exclusive:
  "address_at ''Home'' m ref = Some a \<Longrightarrow> address_at ''Work'' m ref = None"
  by (auto simp: address_at_def split: option.splits if_splits)

lemma address_update_home:
  "home_fields (address_update m ref s) =
     (case address_at ''Home'' m ref of None \<Rightarrow> home_fields s | Some a \<Rightarrow> address_fields a)"
  by (simp add: address_update_def home_fields_def address_fields_def set_home_def set_work_def
        split: option.splits)

lemma address_update_work:
  "work_fields (address_update m ref s) =
     (case address_at ''Work'' m ref of None \<Rightarrow> work_fields s | Some a \<Rightarrow> address_fields a)"
  by (auto simp: address_update_def work_fields_def address_fields_def set_home_def set_work_def
        dest: address_at_exclusive split: option.splits)

lemma fold_address_home:
  "home_fields (fold (address_update m) refs s) =
     last_address (home_fields s) (List.map_filter (address_at ''Home'' m) refs)"
  by (induction refs rule: rev_induct)
     (simp_all add: last_address_def address_update_home map_filter_snoc split: option.splits)

lemma fold_address_work:
  "work_fields (fold (address_update m) refs s) =
     last_address (work_fields s) (List.map_filter (address_at ''Work'' m) refs)"
  by (induction refs rule: rev_induct)
     (simp_all add: last_address_def address_update_work map_filter_snoc split: option.splits)

lemma address_update_others:
  "phone_numbers (address_update m ref s) = phone_numbers s"
  "emails (address_update m ref s) = emails s"
  "household_count (address_update m ref s) = household_count s"
  by (simp_all add: address_update_def set_home_def set_work_def split: option.splits)

lemma fold_address_others:
  "phone_numbers (fold (address_update m) refs s) = phone_numbers s"
  "emails (fold (address_update m) refs s) = emails s"
  "household_count (fold (address_update m) refs s) = household_count s"
  by (induction refs arbitrary: s) (simp_all add: address_update_others)

lemma rel_refs_eq: "getitem rd ''data'' = Inr d \<Longrightarrow> iter d = Inr refs \<Longrightarrow> rel_refs rd = refs"
  by (simp add: rel_refs_def getitem_field elements_def)

lemma rel_step_Inr:
  assumes "rel_step m (k, rd) s = Inr s'" and "all_truthy m"
  shows "phone_numbers s' = phone_numbers s @
           (if k = ''phone_numbers'' then List.map_filter (resolved_attribute m ''number'') (rel_refs rd) else [])"
    and "emails s' = emails s @
           (if k = ''emails'' then List.map_filter (resolved_attribute m ''address'') (rel_refs rd) else [])"
    and "household_count s' = household_count s +
           (if k = ''households'' then sum_list (map (household_members m) (rel_refs rd)) else 0)"
    and "home_fields s' =
           (if k = ''addresses'' then last_address (home_fields s) (List.map_filter (address_at ''Home'' m) (rel_refs rd))
            else home_fields s)"
    and "work_fields s' =
           (if k = ''addresses'' then last_address (work_fields s) (List.map_filter (address_at ''Work'' m) (rel_refs rd))
            else work_fields s)"
proof -
  consider (phone) "k = ''phone_numbers''" | (email) "k = ''emails''" | (address) "k = ''addresses''"
    | (household) "k = ''households''"
    | (other) "k \<noteq> ''phone_numbers''" "k \<noteq> ''emails''" "k \<noteq> ''addresses''" "k \<noteq> ''households''"
    by blast
  then have "(phone_numbers s' = phone_numbers s @
           (if k = ''phone_numbers'' then List.map_filter (resolved_attribute m ''number'') (rel_refs rd) else []))
    \<and> (emails s' = emails s @
           (if k = ''emails'' then List.map_filter (resolved_attribute m ''address'') (rel_refs rd) else []))
    \<and> (household_count s' = household_count s +
           (if k = ''households'' then sum_list (map (household_members m) (rel_refs rd)) else 0))
    \<and> (home_fields s' =
           (if k = ''addresses'' then last_address (home_fields s) (List.map_filter (address_at ''Home'' m) (rel_refs rd))
            else home_fields s))
    \<and> (work_fields s' =
           (if k = ''addresses'' then last_address (work_fields s) (List.map_filter (address_at ''Work'' m) (rel_refs rd))
            else work_fields s))"
  proof cases
    case phone
    with assms(1) obtain d refs where d: "getitem rd ''data'' = Inr d" "iter d = Inr refs"
      and f: "foldE (phone_step m) refs s = Inr s'"
      by (auto simp: rel_step_def bindE_Inr_iff)
    from phones_foldE[OF assms(2) f] rel_refs_eq[OF d] phone show ?thesis
      by (simp add: home_fields_def work_fields_def)
  next
    case email
    with assms(1) obtain d refs where d: "getitem rd ''data'' = Inr d" "iter d = Inr refs"
      and f: "foldE (email_step m) refs s = Inr s'"
      by (auto simp: rel_step_def bindE_Inr_iff)
    from emails_foldE[OF assms(2) f] rel_refs_eq[OF d] email show ?thesis
      by (simp add: home_fields_def work_fields_def)
  next
    case address
    with assms(1) obtain d refs where d: "getitem rd ''data'' = Inr d" "iter d = Inr refs"
      and f: "foldE (address_step m) refs s = Inr s'"
      by (auto simp: rel_step_def bindE_Inr_iff)
    from addresses_foldE[OF assms(2) f] rel_refs_eq[OF d] address show ?thesis
      by (simp add: fold_address_home fold_address_work fold_address_others)
  next
    case household
    with assms(1) obtain d refs where d: "getitem rd ''data'' = Inr d" "iter d = Inr refs"
      and f: "foldE (household_step m) refs s = Inr s'"
      by (auto simp: rel_step_def bindE_Inr_iff)
    from households_foldE[OF assms(2) f] rel_refs_eq[OF d] household show ?thesis
      by (simp add: home_fields_def work_fields_def)
  next
    case other
    with assms(1) show ?thesis
      by (simp add: rel_step_def)
  qed
  then show "phone_numbers s' = phone_numbers s @
           (if k = ''phone_numbers'' then List.map_filter (resolved_attribute m ''number'') (rel_refs rd) else [])"
    and "emails s' = emails s @
           (if k = ''emails'' then List.map_filter (resolved_attribute m ''address'') (rel_refs rd) else [])"
    and "household_count s' = household_count s +
           (if k = ''households'' then sum_list (map (household_members m) (rel_refs rd)) else 0)"
    and "home_fields s' =
           (if k = ''addresses'' then last_address (home_fields s) (List.map_filter (address_at ''Home'' m) (rel_refs rd))
            else home_fields s)"
    and "work_fields s' =
           (if k = ''addresses'' then last_address (work_fields s) (List.map_filter (address_at ''Work'' m) (rel_refs rd))
            else work_fields s)"
    by blast+
qed

lemma last_address_Nil [simp]: "last_address d [] = d"
  by (simp add: last_address_def)

lemma rels_foldE:
  assumes "all_truthy m"
  shows "foldE (rel_step m) kvs s = Inr s' \<Longrightarrow> distinct (map fst kvs) \<Longrightarrow>
    phone_numbers s' = phone_numbers s @
       List.map_filter (resolved_attribute m ''number'') (refs_of kvs ''phone_numbers'')
    \<and> emails s' = emails s @
       List.map_filter (resolved_attribute m ''address'') (refs_of kvs ''emails'')
    \<and> household_count s' = household_count s +
       sum_list (map (household_members m) (refs_of kvs ''households''))
    \<and> home_fields s' =
       last_address (home_fields s) (List.map_filter (address_at ''Home'' m) (refs_of kvs ''addresses''))
    \<and> work_fields s' =
       last_address (work_fields s) (List.map_filter (address_at ''Work'' m) (refs_of kvs ''addresses''))"
proof (induction kvs arbitrary: s)
  case Nil
  then show ?case by (simp add: refs_of_def)
next
  case (Cons kv kvs)
  obtain k rd where kv: "kv = (k, rd)" by (cases kv)
  from Cons.prems(1) obtain t where t: "rel_step m (k, rd) s = Inr t"
    and rest: "foldE (rel_step m) kvs t = Inr s'"
    by (auto simp: bindE_Inr_iff kv)
  from Cons.prems(2) have d: "distinct (map fst kvs)" and k: "map_of kvs k = None"
    by (auto simp: kv map_of_eq_None_iff)
  note step = rel_step_Inr[OF t assms]
  note ih = Cons.IH[OF rest d]
  from k have none: "refs_of kvs k = []"
    by (simp add: refs_of_def)
  have here: "\<And>c. refs_of (kv # kvs) c = (if c = k then rel_refs rd else refs_of kvs c)"
    by (simp add: refs_of_def kv)
  show ?case
    using step ih none by (auto simp: here)
qed

lemma rels_foldE_defined:
  assumes "foldE (rel_step m) kvs s = Inr s'" and "all_truthy m" and "ref \<in> set (refs_of kvs c)"
  shows "c = ''phone_numbers'' \<Longrightarrow> resolve m ref = Some r \<Longrightarrow> attribute r ''number'' \<noteq> None"
    and "c = ''emails'' \<Longrightarrow> resolve m ref = Some r \<Longrightarrow> attribute r ''address'' \<noteq> None"
    and "c = ''households'' \<Longrightarrow> resolved_household m ref = Some r \<Longrightarrow> member_count_ok r"
proof -
  from assms(3) obtain rd where rd: "map_of kvs c = Some rd" and ref: "ref \<in> set (rel_refs rd)"
    by (cases "map_of kvs c") (auto simp: refs_of_def)
  from rd have "(c, rd) \<in> set kvs"
    by (rule map_of_SomeD)
  from foldE_member[OF assms(1) this] obtain t t' where t: "rel_step m (c, rd) t = Inr t'"
    by blast
  show "c = ''phone_numbers'' \<Longrightarrow> resolve m ref = Some r \<Longrightarrow> attribute r ''number'' \<noteq> None"
  proof -
    assume c: "c = ''phone_numbers''" and r: "resolve m ref = Some r"
    from t c obtain d refs where d: "getitem rd ''data'' = Inr d" "iter d = Inr refs"
      and f: "foldE (phone_step m) refs t = Inr t'"
      by (auto simp: rel_step_def bindE_Inr_iff)
    from ref rel_refs_eq[OF d] have "ref \<in> set refs" by simp
    from foldE_member[OF f this] obtain u u' where "phone_step m ref u = Inr u'" by blast
    from phone_step_Inr[OF this assms(2)] r show ?thesis by blast
  qed
  show "c = ''emails'' \<Longrightarrow> resolve m ref = Some r \<Longrightarrow> attribute r ''address'' \<noteq> None"
  proof -
    assume c: "c = ''emails''" and r: "resolve m ref = Some r"
    from t c obtain d refs where d: "getitem rd ''data'' = Inr d" "iter d = Inr refs"
      and f: "foldE (email_step m) refs t = Inr t'"
      by (auto simp: rel_step_def bindE_Inr_iff)
    from ref rel_refs_eq[OF d] have "ref \<in> set refs" by simp
    from foldE_member[OF f this] obtain u u' where "email_step m ref u = Inr u'" by blast
    from email_step_Inr[OF this assms(2)] r show ?thesis by blast
  qed
  show "c = ''households'' \<Longrightarrow> resolved_household m ref = Some r \<Longrightarrow> member_count_ok r"
  proof -
    assume c: "c = ''households''" and r: "resolved_household m ref = Some r"
    from t c obtain d refs where d: "getitem rd ''data'' = Inr d" "iter d = Inr refs"
      and f: "foldE (household_step m) refs t = Inr t'"
      by (auto simp: rel_step_def bindE_Inr_iff)
    from ref rel_refs_eq[OF d] have "ref \<in> set refs" by simp
    from foldE_member[OF f this] obtain u u' where "household_step m ref u = Inr u'" by blast
    from household_step_Inr[OF this assms(2)] r show ?thesis by blast
  qed
qed

lemma new_person_info_Inr:
  assumes "new_person_info person attributes = Inr s"
  shows "phone_numbers s = [] \<and> emails s = [] \<and> household_count s = 0
    \<and> home_fields s = no_address \<and> work_fields s = no_address"
proof (cases attributes)
  case (JObj kvs)
  with assms show ?thesis
    by (auto simp: new_person_info_def bindE_Inr_iff Let_def home_fields_def work_fields_def
          no_address_def)
qed (use assms in \<open>simp_all add: new_person_info_def bindE_Inr_iff\<close>)

lemma items_Inr:
  assumes "items rels = Inr kvs"
  shows "distinct (map fst kvs)" and "map_of kvs c = field rels c"
  using assms by (cases rels; auto simp: field_def AList.map_of_clearjunk)+

lemma flatten_person_Inr:
  assumes "flatten_person data person = Inr info" and "build_included data = Inr m"
  shows "\<exists>info0 kvs attributes. new_person_info person attributes = Inr info0
    \<and> distinct (map fst kvs)
    \<and> (\<forall>c. refs_of kvs c = relationship person c)
    \<and> foldE (rel_step m) kvs info0 = Inr info"
proof -
  from assms obtain attributes info0 rels kvs where
    n: "new_person_info person attributes = Inr info0"
    and r: "get_method person ''relationships'' (JObj []) = Inr rels"
    and i: "items rels = Inr kvs"
    and f: "foldE (rel_step m) kvs info0 = Inr info"
    by (auto simp: flatten_person_def bindE_Inr_iff)
  have "refs_of kvs c = relationship person c" for c
    using r items_Inr(2)[OF i, of c]
    by (auto simp: refs_of_def relationship_def get_method_Inr_iff field_def split: option.splits)
  with n items_Inr(1)[OF i] f show ?thesis
    by blast
qed

lemma sum_list_all_zero: "(\<forall>x \<in> set xs. f x = (0::int)) \<Longrightarrow> sum_list (map f xs) = 0"
  by (induction xs) simp_all

lemma page_loop_Inr:
  "page_loop data limit persons pl = Inr pl' \<Longrightarrow>
   \<exists>infos. pl' = pl @ infos
     \<and> map (flatten_person data) (take (nat (limit - int (length pl))) persons) = map Inr infos"
proof (induction persons arbitrary: pl)
  case Nil
  then show ?case by simp
next
  case (Cons person rest)
  show ?case
  proof (cases "limit \<le> int (length pl)")
    case True
    with Cons.prems show ?thesis by simp
  next
    case False
    with Cons.prems obtain info where f: "flatten_person data person = Inr info"
      and rest: "page_loop data limit rest (pl @ [info]) = Inr pl'"
      by (auto simp: bindE_Inr_iff)
    from Cons.IH[OF rest] obtain infos where pl': "pl' = (pl @ [info]) @ infos"
      and m: "map (flatten_person data) (take (nat (limit - int (length (pl @ [info])))) rest)
              = map Inr infos"
      by blast
    from False obtain n where n: "nat (limit - int (length pl)) = Suc n"
      by (cases "nat (limit - int (length pl))") auto
    then have "nat (limit - int (length (pl @ [info]))) = n"
      by simp
    with m f n pl' have "pl' = pl @ (info # infos)
      \<and> map (flatten_person data) (take (nat (limit - int (length pl))) (person # rest))
          = map Inr (info # infos)"
      by simp
    then show ?thesis by blast
  qed
qed

lemma page_records_eq:
  "getitem data ''data'' = Inr d \<Longrightarrow> iter d = Inr persons \<Longrightarrow> page_records data = persons"
  by (simp add: page_records_def getitem_field elements_def)

lemma people_page_Inr:
  assumes "people_page limit response pl = Inr (pl', nxt)"
  shows "\<exists>data infos. raise_for_status response = Inr () \<and> body response = Some data
    \<and> pl' = pl @ infos
    \<and> map flatten_record (take (nat (limit - int (length pl))) (map (Pair data) (page_records data)))
        = map Inr infos
    \<and> (nxt = None \<longleftrightarrow> limit \<le> int (length pl'))"
proof -
  from assms obtain data d persons pl'' where r: "raise_for_status response = Inr ()"
    and b: "response_json response = Inr data"
    and d: "getitem data ''data'' = Inr d" "iter d = Inr persons"
    and l'': "page_loop data limit persons pl = Inr pl''"
    and n'': "(if limit \<le> int (length pl'') then Inr (pl'', None)
             else bindE (get_method data ''links'' (JObj [])) (\<lambda>links.
                  bindE (get_method links ''next'' JNull) (\<lambda>next_page.
                    Inr (pl'', Some next_page)))) = Inr (pl', nxt)"
    by (auto simp: people_page_def bindE_Inr_iff)
  from n'' have eq: "pl'' = pl'"
    by (auto simp: bindE_Inr_iff split: if_splits)
  note l = l''[unfolded eq] and n = n''[unfolded eq]
  from b have body: "body response = Some data"
    by (simp add: response_json_def split: option.splits)
  from page_loop_Inr[OF l] obtain infos where pl': "pl' = pl @ infos"
    and m: "map (flatten_person data) (take (nat (limit - int (length pl))) persons) = map Inr infos"
    by blast
  have "map flatten_record (take (nat (limit - int (length pl))) (map (Pair data) persons))
        = map (flatten_person data) (take (nat (limit - int (length pl))) persons)"
    by (simp add: take_map flatten_record_def o_def)
  with m have m': "map flatten_record
      (take (nat (limit - int (length pl))) (map (Pair data) (page_records data))) = map Inr infos"
    by (simp add: page_records_eq[OF d])
  from n have "nxt = None \<longleftrightarrow> limit \<le> int (length pl')"
    by (auto simp: bindE_Inr_iff split: if_splits)
  with r body pl' m' show ?thesis
    by blast
qed

lemma send_exchanges:
  assumes "send server rq io = (res, io1)"
  shows "exchanges io1 = exchanges io @ [(rq, res)]" and "stdout io1 = stdout io"
    and "files io1 = files io" and "server (world io) rq = (res, world io1)"
  using assms by (auto simp: send_def split: prod.splits)

lemma take_covers:
  assumes "map f (take n xs) = map g ys" and "length ys < n"
  shows "take n xs = xs" and "length xs = length ys"
proof -
  from assms(1) have "length (take n xs) = length ys"
    by (metis length_map)
  with assms(2) show "length xs = length ys"
    by (simp add: min_def split: if_splits)
  with assms(2) show "take n xs = xs"
    by simp
qed

lemma all_records_Cons:
  "all_records (data # pages) = map (Pair data) (page_records data) @ all_records pages"
  by (simp add: all_records_def)

lemma all_records_Nil [simp]: "all_records [] = []"
  by (simp add: all_records_def)

lemma fetched_Nil: "fetched limit pl pl []"
  by (simp add: fetched_def)

lemma fetched_last:
  assumes "raise_for_status response = Inr ()" and "body response = Some data"
    and "map flatten_record (take (nat (limit - int (length pl))) (map (Pair data) (page_records data)))
         = map Inr infos"
  shows "fetched limit pl (pl @ infos) [(rq, Responds response)]"
  unfolding fetched_def
proof (intro exI[of _ "[data]"] exI[of _ infos] conjI)
  show "map page_of_exchange [(rq, Responds response)] = map Some [data]"
    using assms(2) by (simp add: page_of_exchange_def)
  show "map flatten_record (take (nat (limit - int (length pl))) (all_records [data])) = map Inr infos"
    using assms(3) by (simp add: all_records_Cons)
  show "\<forall>ex \<in> set [(rq, Responds response)]. \<exists>r. snd ex = Responds r \<and> raise_for_status r = Inr ()"
    using assms(1) by simp
qed simp_all

lemma fetched_step:
  assumes r: "raise_for_status response = Inr ()" and b: "body response = Some data"
    and m: "map flatten_record (take (nat (limit - int (length pl))) (map (Pair data) (page_records data)))
         = map Inr infos1"
    and more: "\<not> limit \<le> int (length (pl @ infos1))"
    and rest: "fetched limit (pl @ infos1) people exs"
  shows "fetched limit pl people ((rq, Responds response) # exs)"
proof -
  from rest obtain pages infos where
    p: "map page_of_exchange exs = map Some pages"
    and people: "people = (pl @ infos1) @ infos"
    and f: "map flatten_record (take (nat (limit - int (length (pl @ infos1)))) (all_records pages))
            = map Inr infos"
    and nf: "\<And>k. Suc k < length pages \<Longrightarrow>
             int (length (pl @ infos1)) + int (length (all_records (take (Suc k) pages))) < limit"
    and ok: "\<forall>ex \<in> set exs. \<exists>r. snd ex = Responds r \<and> raise_for_status r = Inr ()"
    unfolding fetched_def by blast
  let ?n = "nat (limit - int (length pl))"
  let ?recs = "map (Pair data) (page_records data)"
  from more have short: "length infos1 < ?n"
    by simp
  from take_covers[OF m short] have all: "take ?n ?recs = ?recs" and len: "length ?recs = length infos1"
    by simp_all
  have n': "?n - length ?recs = nat (limit - int (length (pl @ infos1)))"
    using len by simp
  have t: "take ?n (all_records (data # pages)) =
           ?recs @ take (nat (limit - int (length (pl @ infos1)))) (all_records pages)"
    by (simp only: all_records_Cons take_append all n')
  have "map flatten_record (take ?n (all_records (data # pages))) = map Inr (infos1 @ infos)"
    by (simp only: t map_append m[unfolded all] f)
  moreover have "int (length pl) + int (length (all_records (take (Suc k) (data # pages)))) < limit"
    if "Suc k < length (data # pages)" for k
  proof (cases k)
    case 0
    with more len show ?thesis
      by (simp add: all_records_Cons)
  next
    case (Suc k')
    with that have "Suc k' < length pages" by simp
    from nf[OF this] len Suc show ?thesis
      by (simp add: all_records_Cons)
  qed
  moreover have "map page_of_exchange ((rq, Responds response) # exs) = map Some (data # pages)"
    using p b by (simp add: page_of_exchange_def)
  moreover have "\<forall>ex \<in> set ((rq, Responds response) # exs).
      \<exists>r. snd ex = Responds r \<and> raise_for_status r = Inr ()"
    using ok r by simp
  moreover have "people = pl @ (infos1 @ infos)"
    using people by simp
  ultimately show ?thesis
    unfolding fetched_def by blast
qed

lemma fetch_people_loop_Inr:
  "fetch_people_loop fuel server auth limit nxt pl io = Some (Inr people, io') \<Longrightarrow>
   \<exists>exs. exchanges io' = exchanges io @ exs \<and> fetched limit pl people exs"
proof (induction fuel arbitrary: nxt pl io)
  case 0
  then show ?case by simp
next
  case (Suc fuel)
  show ?case
  proof (cases "truthy nxt")
    case False
    with Suc.prems have "people = pl" "io' = io" by simp_all
    then show ?thesis
      using fetched_Nil by auto
  next
    case True
    let ?rq = "Get (Url nxt) auth people_params"
    obtain res io1 where s: "send server ?rq io = (res, io1)"
      by (cases "send server ?rq io")
    note ex = send_exchanges(1)[OF s]
    from Suc.prems True s obtain response where res: "res = Responds response"
      by (cases res) simp_all
    from Suc.prems True s res obtain pl1 n1 where pp: "people_page limit response pl = Inr (pl1, n1)"
      by (cases "people_page limit response pl") auto
    from people_page_Inr[OF pp] obtain data infos1 where
      r: "raise_for_status response = Inr ()" and b: "body response = Some data"
      and pl1: "pl1 = pl @ infos1"
      and m: "map flatten_record
                (take (nat (limit - int (length pl))) (map (Pair data) (page_records data)))
              = map Inr infos1"
      and stop: "n1 = None \<longleftrightarrow> limit \<le> int (length pl1)"
      by blast
    show ?thesis
    proof (cases n1)
      case None
      with Suc.prems True s res pp have "people = pl1" "io' = io1" by simp_all
      with fetched_last[OF r b m, of ?rq] ex res pl1 show ?thesis
        by auto
    next
      case (Some nxt')
      with Suc.prems True s res pp
      have "fetch_people_loop fuel server auth limit nxt' pl1 io1 = Some (Inr people, io')"
        by simp
      from Suc.IH[OF this] obtain exs where e: "exchanges io' = exchanges io1 @ exs"
        and f: "fetched limit pl1 people exs"
        by blast
      from stop Some have more: "\<not> limit \<le> int (length (pl @ infos1))"
        by (simp add: pl1)
      from fetched_step[OF r b m more f[unfolded pl1], of ?rq] e ex res show ?thesis
        by auto
    qed
  qed
qed

lemma flatten_plain_person:
  "\<exists>info. flatten_person data (plain_person i) = Inr info \<and> pid info = JStr i"
  if "build_included data = Inr m" for data m
  using that
  by (simp add: flatten_person_def plain_person_def new_person_info_def)

lemma build_included_pages:
  "build_included page_one = Inr Map.empty" "build_included page_two = Inr Map.empty"
  by (simp_all add: build_included_def page_one_def page_two_def)

lemma fetch_people_paged:
  "\<exists>people. fetch_people (Suc (Suc 0)) paged_server example_id example_secret 3 io0 =
       Some (Inr people, io0\<lparr>exchanges := paged_exchanges\<rparr>)
     \<and> map pid people = [JStr ''1'', JStr ''2'', JStr ''3'']"
proof -
  from flatten_plain_person[OF build_included_pages(1)] obtain i1 i2 where
    f1: "flatten_person page_one (plain_person ''1'') = Inr i1" "pid i1 = JStr ''1''"
    and f2: "flatten_person page_one (plain_person ''2'') = Inr i2" "pid i2 = JStr ''2''"
    by blast
  from flatten_plain_person[OF build_included_pages(2)] obtain i3 where
    f3: "flatten_person page_two (plain_person ''3'') = Inr i3" "pid i3 = JStr ''3''"
    by blast
  have p1: "people_page 3 \<lparr>status_code = 200, body = Some page_one\<rparr> [] =
      Inr ([i1, i2], Some (JStr ''https://example.org/people?offset=2''))"
    using f1(1) f2(1)
    by (simp add: people_page_def raise_for_status_def response_json_def)
       (simp add: page_one_def)
  have p2: "people_page 3 \<lparr>status_code = 200, body = Some page_two\<rparr> [i1, i2] =
      Inr ([i1, i2, i3], None)"
    using f3(1)
    by (simp add: people_page_def raise_for_status_def response_json_def)
       (simp add: page_two_def)
  have "fetch_people (Suc (Suc 0)) paged_server example_id example_secret 3 io0 =
       Some (Inr [i1, i2, i3], io0\<lparr>exchanges := paged_exchanges\<rparr>)"
    by (simp add: fetch_people_def send_def paged_server_def p1 p2 people_url_def io0_def
          paged_exchanges_def)
  with f1(2) f2(2) f3(2) show ?thesis
    by simp
qed

lemma remove_assignments_statuses:
  "delete_statuses server auth st tp as (world io) = Some statuses \<Longrightarrow>
   \<exists>io'. remove_assignments server auth st tp stn tpn as io = (Inr (), io')
     \<and> stdout io' = stdout io @ map (removal_message stn tpn) (zip as statuses)
     \<and> length statuses = length as
     \<and> length (exchanges io') = length (exchanges io) + length as"
proof (induction as arbitrary: io statuses)
  case Nil
  then show ?case by simp
next
  case (Cons a as)
  from Cons.prems obtain i where i: "field a ''id'' = Some i"
    by (cases "field a ''id''") simp_all
  let ?rq = "Delete (Assignment_url st tp i) auth"
  obtain res w' where srv: "server (world io) ?rq = (res, w')"
    by (cases "server (world io) ?rq")
  from Cons.prems i srv obtain r where res: "res = Responds r"
    by (cases res) simp_all
  from Cons.prems i srv res obtain rest where
    rest: "delete_statuses server auth st tp as w' = Some rest"
    and statuses: "statuses = status_code r # rest"
    by auto
  let ?io1 = "io\<lparr>world := w', exchanges := exchanges io @ [(?rq, res)]\<rparr>"
  let ?io2 = "print (removal_message stn tpn (a, status_code r)) ?io1"
  have s: "send server ?rq io = (res, ?io1)"
    by (simp add: send_def srv)
  have g: "getitem a ''id'' = Inr i"
    using i by (simp add: getitem_field)
  have step: "remove_assignments server auth st tp stn tpn (a # as) io =
      remove_assignments server auth st tp stn tpn as ?io2"
    by (simp add: g s res removal_message_def id_of_def i del: send_def)
  have "delete_statuses server auth st tp as (world ?io2) = Some rest"
    using rest by (simp add: print_def)
  from Cons.IH[OF this] obtain io' where
    run: "remove_assignments server auth st tp stn tpn as ?io2 = (Inr (), io')"
    and out: "stdout io' = stdout ?io2 @ map (removal_message stn tpn) (zip as rest)"
    and len: "length rest = length as"
    and ex: "length (exchanges io') = length (exchanges ?io2) + length as"
    by blast
  from run out len ex show ?case
    unfolding step statuses by (simp add: print_def)
qed

lemma count_removal_messages:
  "length (filter is_success (map (removal_message stn tpn) ps)) = length (filter (\<lambda>p. snd p = 204) ps)"
  "length (filter is_failure (map (removal_message stn tpn) ps)) = length (filter (\<lambda>p. snd p \<noteq> 204) ps)"
  by (induction ps) (simp_all add: removal_message_def)

lemma filter_zip_snd:
  "length xs = length ys \<Longrightarrow>
   length (filter (\<lambda>p. P (snd p)) (zip xs ys)) = length (filter P ys)"
  by (induction xs ys rule: list_induct2) simp_all

section \<open>The example page, evaluated\<close>

lemmas example_defs =
  example_person_def example_page_def example_h1_def example_h2_def example_a1_def
  example_a2_def example_a3_def example_a4_def example_p1_def example_p2_def example_e1_def

lemma build_included_example: "build_included example_page = Inr example_included"
  by (simp add: build_included_def included_item_def example_included_def example_defs)

lemma flatten_example: "\<exists>info. flatten_person example_page example_person = Inr info"
  unfolding flatten_person_def build_included_example
  by (simp add: new_person_info_def rel_step_def example_included_def household_step_def
        address_step_def phone_step_def email_step_def included_get_def example_defs)


lemma relationship_example:
  "relationship example_person ''households'' =
     [JObj [(''id'', JStr ''h1''), (''type'', JStr ''Household'')],
      JObj [(''id'', JStr ''h2''), (''type'', JStr ''Household'')]]"
  "relationship example_person ''addresses'' =
     [JObj [(''id'', JStr ''a1''), (''type'', JStr ''Address'')],
      JObj [(''id'', JStr ''a2''), (''type'', JStr ''Address'')],
      JObj [(''id'', JStr ''a3''), (''type'', JStr ''Address'')],
      JObj [(''id'', JStr ''a4''), (''type'', JStr ''Address'')]]"
  "relationship example_person ''phone_numbers'' =
     [JObj [(''id'', JStr ''p1''), (''type'', JStr ''PhoneNumber'')],
      JObj [(''id'', JStr ''p9''), (''type'', JStr ''PhoneNumber'')],
      JObj [(''id'', JStr ''p2''), (''type'', JStr ''PhoneNumber'')]]"
  "relationship example_person ''emails'' = [JObj [(''id'', JStr ''e1''), (''type'', JStr ''Email'')]]"
  by (simp_all add: relationship_def field_def rel_refs_def elements_def example_person_def)

lemma resolve_example:
  "resolve example_included (JObj [(''id'', JStr ''h1''), (''type'', JStr ''Household'')]) = Some example_h1"
  "resolve example_included (JObj [(''id'', JStr ''h2''), (''type'', JStr ''Household'')]) = Some example_h2"
  "resolve example_included (JObj [(''id'', JStr ''a1''), (''type'', JStr ''Address'')]) = Some example_a1"
  "resolve example_included (JObj [(''id'', JStr ''a2''), (''type'', JStr ''Address'')]) = Some example_a2"
  "resolve example_included (JObj [(''id'', JStr ''a3''), (''type'', JStr ''Address'')]) = Some example_a3"
  "resolve example_included (JObj [(''id'', JStr ''a4''), (''type'', JStr ''Address'')]) = Some example_a4"
  "resolve example_included (JObj [(''id'', JStr ''p1''), (''type'', JStr ''PhoneNumber'')]) = Some example_p1"
  "resolve example_included (JObj [(''id'', JStr ''p9''), (''type'', JStr ''PhoneNumber'')]) = None"
  "resolve example_included (JObj [(''id'', JStr ''p2''), (''type'', JStr ''PhoneNumber'')]) = Some example_p2"
  "resolve example_included (JObj [(''id'', JStr ''e1''), (''type'', JStr ''Email'')]) = Some example_e1"
  by (simp_all add: resolve_def field_def example_included_def)

section \<open>Households\<close>

text \<open>
  C2. When \<open>fetch_people\<close> flattens a person of a page, \<open>household_count\<close> is the sum,
  over the references of the person's \<open>households\<close> relationship array that resolve in the
  included set of the page to a record of type "Household", of the \<open>member_count\<close> of that
  record, 0 when the attribute is absent; each \<open>member_count\<close> that is present is an
  integer; and the count is 0 when the array is absent or empty or no reference resolves
  to a household.
\<close>

theorem household_count_is_sum:
  assumes "flatten_person data person = Inr info"
    and "build_included data = Inr included_data"
  shows "household_count info =
           sum_list (map (household_members included_data) (relationship person ''households''))
       \<and> (\<forall>ref \<in> set (relationship person ''households'').
             \<forall>h. resolved_household included_data ref = Some h \<longrightarrow> member_count_ok h)
       \<and> ((\<forall>ref \<in> set (relationship person ''households'').
              resolved_household included_data ref = None) \<longrightarrow> household_count info = 0)"
proof -
  have truthy: "all_truthy included_data"
    using assms(2) by (rule build_included_truthy)
  from flatten_person_Inr[OF assms] obtain info0 kvs attributes where
    new: "new_person_info person attributes = Inr info0"
    and dist: "distinct (map fst kvs)"
    and refs: "\<And>c. refs_of kvs c = relationship person c"
    and run: "foldE (rel_step included_data) kvs info0 = Inr info"
    by blast
  from rels_foldE[OF truthy run dist] new_person_info_Inr[OF new]
  have sum: "household_count info =
      sum_list (map (household_members included_data) (relationship person ''households''))"
    by (simp add: refs)
  have ok: "member_count_ok h"
    if "ref \<in> set (relationship person ''households'')"
      and "resolved_household included_data ref = Some h" for ref h
    using rels_foldE_defined(3)[OF run truthy _ refl that(2)] that(1) by (simp add: refs)
  have zero: "household_count info = 0"
    if "\<forall>ref \<in> set (relationship person ''households'').
          resolved_household included_data ref = None"
  proof -
    from that have "\<forall>ref \<in> set (relationship person ''households'').
                     household_members included_data ref = 0"
      by (simp add: household_members_def)
    then show ?thesis
      unfolding sum by (rule sum_list_all_zero)
  qed
  from sum ok zero show ?thesis
    by blast
qed

theorem household_count_is_sum_witness:
  "\<exists>info. flatten_person example_page example_person = Inr info
        \<and> build_included example_page = Inr example_included
        \<and> household_count info = 7"
proof -
  from flatten_example obtain info where f: "flatten_person example_page example_person = Inr info"
    by blast
  from household_count_is_sum[OF f build_included_example]
  have "household_count info =
          sum_list (map (household_members example_included) (relationship example_person ''households''))"
    by blast
  also have "\<dots> = 7"
    by (simp add: relationship_example resolve_example household_members_def resolved_household_def
          member_count_def attribute_def field_def int_of_def example_h1_def example_h2_def)
  finally show ?thesis
    using f build_included_example by blast
qed

section \<open>Phone numbers and emails\<close>

text \<open>
  C4. When \<open>fetch_people\<close> flattens a person of a page, \<open>phone_numbers\<close> is the list of the
  \<open>number\<close> attributes of the records that the references of the person's \<open>phone_numbers\<close>
  relationship array resolve to in the included set of the page, in the order of the array,
  and \<open>emails\<close> is the same for the \<open>address\<close> attribute and the \<open>emails\<close> array; every
  record that a reference resolves to has the attribute, so it contributes one whole entry;
  and a reference whose id is not in the included set leaves the record as it is and
  raises nothing.
\<close>

theorem contact_lists_resolved:
  assumes "flatten_person data person = Inr info"
    and "build_included data = Inr included_data"
  shows "phone_numbers info =
           List.map_filter (resolved_attribute included_data ''number'')
             (relationship person ''phone_numbers'')
       \<and> emails info =
           List.map_filter (resolved_attribute included_data ''address'')
             (relationship person ''emails'')
       \<and> (\<forall>ref \<in> set (relationship person ''phone_numbers'').
             \<forall>r. resolve included_data ref = Some r \<longrightarrow> attribute r ''number'' \<noteq> None)
       \<and> (\<forall>ref \<in> set (relationship person ''emails'').
             \<forall>r. resolve included_data ref = Some r \<longrightarrow> attribute r ''address'' \<noteq> None)
       \<and> (\<forall>ref i h s. getitem ref ''id'' = Inr i \<longrightarrow> hash_key i = Inr h
              \<longrightarrow> included_data h = None
              \<longrightarrow> phone_step included_data ref s = Inr s \<and> email_step included_data ref s = Inr s)"
proof -
  have truthy: "all_truthy included_data"
    using assms(2) by (rule build_included_truthy)
  from flatten_person_Inr[OF assms] obtain info0 kvs attributes where
    new: "new_person_info person attributes = Inr info0"
    and dist: "distinct (map fst kvs)"
    and refs: "\<And>c. refs_of kvs c = relationship person c"
    and run: "foldE (rel_step included_data) kvs info0 = Inr info"
    by blast
  from rels_foldE[OF truthy run dist] new_person_info_Inr[OF new]
  have lists: "phone_numbers info =
           List.map_filter (resolved_attribute included_data ''number'')
             (relationship person ''phone_numbers'')"
       "emails info =
           List.map_filter (resolved_attribute included_data ''address'')
             (relationship person ''emails'')"
    by (simp_all add: refs)
  have phone: "attribute r ''number'' \<noteq> None"
    if "ref \<in> set (relationship person ''phone_numbers'')"
      and "resolve included_data ref = Some r" for ref r
    using rels_foldE_defined(1)[OF run truthy _ refl that(2)] that(1) by (simp add: refs)
  have email: "attribute r ''address'' \<noteq> None"
    if "ref \<in> set (relationship person ''emails'')"
      and "resolve included_data ref = Some r" for ref r
    using rels_foldE_defined(2)[OF run truthy _ refl that(2)] that(1) by (simp add: refs)
  have skip: "phone_step included_data ref s = Inr s \<and> email_step included_data ref s = Inr s"
    if "getitem ref ''id'' = Inr i" and "hash_key i = Inr h" and "included_data h = None"
    for ref i h s
    using that by (simp add: phone_step_def email_step_def included_get_def)
  from lists phone email skip show ?thesis
    by blast
qed

theorem contact_lists_resolved_witness:
  "\<exists>info. flatten_person example_page example_person = Inr info
        \<and> build_included example_page = Inr example_included
        \<and> phone_numbers info = [JStr ''555-0100'', JStr ''555-0199'']
        \<and> emails info = [JStr ''ada@example.org'']
        \<and> phone_step example_included (JObj [(''id'', JStr ''p9''), (''type'', JStr ''PhoneNumber'')]) info
            = Inr info"
proof -
  from flatten_example obtain info where f: "flatten_person example_page example_person = Inr info"
    by blast
  note c = contact_lists_resolved[OF f build_included_example]
  from c have "phone_numbers info =
      List.map_filter (resolved_attribute example_included ''number'')
        (relationship example_person ''phone_numbers'')"
    by blast
  also have "\<dots> = [JStr ''555-0100'', JStr ''555-0199'']"
    by (simp add: relationship_example resolve_example resolved_attribute_def map_filter_Cons
          attribute_def field_def example_p1_def example_p2_def)
  finally have p: "phone_numbers info = [JStr ''555-0100'', JStr ''555-0199'']" .
  from c have "emails info =
      List.map_filter (resolved_attribute example_included ''address'')
        (relationship example_person ''emails'')"
    by blast
  also have "\<dots> = [JStr ''ada@example.org'']"
    by (simp add: relationship_example resolve_example resolved_attribute_def map_filter_Cons
          attribute_def field_def example_e1_def)
  finally have e: "emails info = [JStr ''ada@example.org'']" .
  have "getitem (JObj [(''id'', JStr ''p9''), (''type'', JStr ''PhoneNumber'')]) ''id'' = Inr (JStr ''p9'')"
    and "hash_key (JStr ''p9'') = Inr (KStr ''p9'')"
    and "example_included (KStr ''p9'') = None"
    by (simp_all add: example_included_def)
  with c have "phone_step example_included
      (JObj [(''id'', JStr ''p9''), (''type'', JStr ''PhoneNumber'')]) info = Inr info"
    by blast
  with p e f build_included_example show ?thesis
    by blast
qed

section \<open>Addresses\<close>

text \<open>
  C3. When \<open>fetch_people\<close> flattens a person of a page, every reference of the person's
  \<open>addresses\<close> relationship array acts by the exact value of the \<open>location\<close> of the address
  it resolves to: "Home" overwrites the four home fields and nothing else, "Work" the four
  work fields and nothing else, any other value (or no address) changes nothing. In the
  result the home fields are those of the last "Home" address of the array and the work
  fields those of the last "Work" address, each group empty when the array has no such
  address.
\<close>

theorem addresses_last_wins:
  assumes "flatten_person data person = Inr info"
    and "build_included data = Inr included_data"
  shows "home_fields info =
           last_address no_address
             (List.map_filter (address_at ''Home'' included_data) (relationship person ''addresses''))
       \<and> work_fields info =
           last_address no_address
             (List.map_filter (address_at ''Work'' included_data) (relationship person ''addresses''))
       \<and> (\<forall>ref s s'. address_step included_data ref s = Inr s'
              \<longrightarrow> s' = address_update included_data ref s)"
proof -
  have truthy: "all_truthy included_data"
    using assms(2) by (rule build_included_truthy)
  from flatten_person_Inr[OF assms] obtain info0 kvs attributes where
    new: "new_person_info person attributes = Inr info0"
    and dist: "distinct (map fst kvs)"
    and refs: "\<And>c. refs_of kvs c = relationship person c"
    and run: "foldE (rel_step included_data) kvs info0 = Inr info"
    by blast
  from rels_foldE[OF truthy run dist] new_person_info_Inr[OF new]
  have "home_fields info =
           last_address no_address
             (List.map_filter (address_at ''Home'' included_data) (relationship person ''addresses''))"
    and "work_fields info =
           last_address no_address
             (List.map_filter (address_at ''Work'' included_data) (relationship person ''addresses''))"
    by (simp_all add: refs)
  moreover have "s' = address_update included_data ref s"
    if "address_step included_data ref s = Inr s'" for ref s s'
    using that truthy by (rule address_step_Inr)
  ultimately show ?thesis
    by blast
qed

theorem addresses_last_wins_witness:
  "\<exists>info. flatten_person example_page example_person = Inr info
        \<and> build_included example_page = Inr example_included
        \<and> home_fields info = (JStr ''2 New Rd'', JStr ''Hull'', JNull, JNull)
        \<and> work_fields info = (JStr ''9 Mill St'', JStr ''York'', JStr ''NY'', JStr ''YO1'')
        \<and> address_update example_included
              (JObj [(''id'', JStr ''a4''), (''type'', JStr ''Address'')]) info = info"
proof -
  from flatten_example obtain info where f: "flatten_person example_page example_person = Inr info"
    by blast
  note c = addresses_last_wins[OF f build_included_example]
  from c have "home_fields info =
      last_address no_address
        (List.map_filter (address_at ''Home'' example_included) (relationship example_person ''addresses''))"
    by blast
  also have "\<dots> = (JStr ''2 New Rd'', JStr ''Hull'', JNull, JNull)"
    by (simp add: relationship_example resolve_example address_at_def map_filter_Cons
          last_address_def address_fields_def attribute_or_null_def
          attribute_def field_def example_a1_def example_a2_def example_a3_def example_a4_def)
  finally have h: "home_fields info = (JStr ''2 New Rd'', JStr ''Hull'', JNull, JNull)" .
  from c have "work_fields info =
      last_address no_address
        (List.map_filter (address_at ''Work'' example_included) (relationship example_person ''addresses''))"
    by blast
  also have "\<dots> = (JStr ''9 Mill St'', JStr ''York'', JStr ''NY'', JStr ''YO1'')"
    by (simp add: relationship_example resolve_example address_at_def map_filter_Cons
          last_address_def address_fields_def attribute_or_null_def
          attribute_def field_def example_a1_def example_a2_def example_a3_def example_a4_def)
  finally have w: "work_fields info = (JStr ''9 Mill St'', JStr ''York'', JStr ''NY'', JStr ''YO1'')" .
  have "address_step example_included
          (JObj [(''id'', JStr ''a4''), (''type'', JStr ''Address'')]) info = Inr info"
    by (simp add: address_step_def included_get_def example_included_def example_a4_def)
  with c have "address_update example_included
          (JObj [(''id'', JStr ''a4''), (''type'', JStr ''Address'')]) info = info"
    by metis
  with h w f build_included_example show ?thesis
    by blast
qed

section \<open>Pages and the limit\<close>

text \<open>
  C1, amended. When \<open>fetch_people\<close> returns a list, the list has at most \<open>max(limit, 0)\<close>
  records, and it is the flattening of the first \<open>min(max(limit, 0), total)\<close> elements of the
  concatenation of the \<open>data\<close> arrays of the pages fetched, in page order, each record
  flattened with the included set of its own page; the records after the limit are not
  flattened, and no page is fetched once the pages fetched so far hold \<open>limit\<close> records.
  Every request of the run was answered by a page. (A negative limit returns the empty list,
  which has more than \<open>limit\<close> records.)
\<close>

theorem fetch_people_limit:
  assumes "fetch_people fuel server client_id client_secret limit io = Some (Inr people, io')"
  shows "int (length people) \<le> max 0 limit
       \<and> map flatten_record (take (nat limit) (all_records (pages_fetched io io'))) = map Inr people
       \<and> length people = min (nat limit) (length (all_records (pages_fetched io io')))
       \<and> (\<forall>k. Suc k < length (pages_fetched io io') \<longrightarrow>
             int (length (all_records (take (Suc k) (pages_fetched io io')))) < limit)
       \<and> length (pages_fetched io io') = length (new_exchanges io io')
       \<and> exchanges io' = exchanges io @ new_exchanges io io'"
proof -
  from fetch_people_loop_Inr[OF assms[unfolded fetch_people_def]]
  obtain exs where e: "exchanges io' = exchanges io @ exs" and f: "fetched limit [] people exs"
    by blast
  from f obtain pages where p: "map page_of_exchange exs = map Some pages"
    and m: "map flatten_record (take (nat limit) (all_records pages)) = map Inr people"
    and nf: "\<And>k. Suc k < length pages \<Longrightarrow> int (length (all_records (take (Suc k) pages))) < limit"
    unfolding fetched_def by auto
  have new: "new_exchanges io io' = exs"
    by (simp add: new_exchanges_def e)
  have "List.map_filter page_of_exchange exs = pages"
    using p by (induction exs arbitrary: pages) (auto simp: map_filter_Cons)
  then have pages: "pages_fetched io io' = pages"
    by (simp add: pages_fetched_def new)
  from p have lp: "length pages = length exs"
    by (metis length_map)
  from m have len: "length people = length (take (nat limit) (all_records pages))"
    by (metis length_map)
  then have "length people = min (nat limit) (length (all_records pages))"
    by (simp add: min.commute)
  moreover from this have "int (length people) \<le> max 0 limit"
    by linarith
  ultimately show ?thesis
    using m nf lp e by (simp add: pages new)
qed

theorem fetch_people_limit_witness:
  "\<exists>people. fetch_people (Suc (Suc 0)) paged_server example_id example_secret 3 io0 =
       Some (Inr people, io0\<lparr>exchanges := paged_exchanges\<rparr>)
     \<and> map pid people = [JStr ''1'', JStr ''2'', JStr ''3'']
     \<and> length people = 3
     \<and> pages_fetched io0 (io0\<lparr>exchanges := paged_exchanges\<rparr>) = [page_one, page_two]
     \<and> length (all_records [page_one]) = 2"
  using fetch_people_paged
proof (elim exE conjE)
  fix people
  assume run: "fetch_people (Suc (Suc 0)) paged_server example_id example_secret 3 io0 =
       Some (Inr people, io0\<lparr>exchanges := paged_exchanges\<rparr>)"
    and ids: "map pid people = [JStr ''1'', JStr ''2'', JStr ''3'']"
  have pages: "pages_fetched io0 (io0\<lparr>exchanges := paged_exchanges\<rparr>) = [page_one, page_two]"
    by (simp add: pages_fetched_def new_exchanges_def io0_def paged_exchanges_def map_filter_Cons
          page_of_exchange_def)
  have recs: "page_records page_one = [plain_person ''1'', plain_person ''2'']"
    "page_records page_two = [plain_person ''3'', plain_person ''4'']"
    by (simp_all add: page_records_def field_def elements_def page_one_def page_two_def)
  note c = fetch_people_limit[OF run, unfolded pages]
  from c have "length people = min (nat 3) (length (all_records [page_one, page_two]))"
    by (elim conjE)
  then have l: "length people = 3"
    by (simp add: all_records_Cons recs)
  from c have "\<forall>k. Suc k < length [page_one, page_two] \<longrightarrow>
      int (length (all_records (take (Suc k) [page_one, page_two]))) < 3"
    by (elim conjE)
  then have "Suc 0 < length [page_one, page_two] \<longrightarrow>
      int (length (all_records (take (Suc 0) [page_one, page_two]))) < 3"
    by (rule spec)
  then have "length (all_records [page_one]) < 3"
    by simp
  moreover have "length (all_records [page_one]) = 2"
    by (simp add: all_records_Cons recs)
  ultimately show ?thesis
    using run ids l pages by (intro exI[of _ people] conjI)
qed

text \<open>
  C1 as stated fails for a negative limit: with \<open>limit = -1\<close> the loop of line 49 breaks at
  the first record, the list returned is empty, and 0 records are more than -1.
\<close>

theorem negative_limit_counterexample:
  "fetch_people (Suc 0) paged_server example_id example_secret (- 1) io0 =
     Some (Inr [], io0\<lparr>exchanges := [hd paged_exchanges]\<rparr>)
   \<and> \<not> int (length ([] :: person_info list)) \<le> - 1"
  by (simp add: fetch_people_def send_def paged_server_def people_url_def io0_def
        paged_exchanges_def people_page_def raise_for_status_def response_json_def page_one_def)

section \<open>HTTP failures on the two read paths\<close>

text \<open>
  C5, amended. In \<open>get_paginated_results\<close>, a response whose status is not 200 ends the loop:
  the helper prints the diagnostic with the status and returns the records accumulated so
  far, without an exception. In \<open>fetch_people\<close>, a response whose status is from 400 to 599
  raises HTTPError at once, whatever has been accumulated, and the fetch returns no list;
  so a fetch that returns a list has met no such status. A response with any other status
  passes the status check, and lines 45-136 handle it exactly as they handle the same
  response with status 200.
\<close>

theorem http_failure_policies:
  "(url_truthy url \<longrightarrow> server (world io) (Get url auth []) = (Responds r, w)
      \<longrightarrow> status_code r \<noteq> 200
      \<longrightarrow> get_paginated_loop (Suc fuel) server auth url results io =
            Some (Inr results,
                  print (Error_fetching_data (status_code r))
                    (io\<lparr>world := w, exchanges := exchanges io @ [(Get url auth [], Responds r)]\<rparr>)))
   \<and> (truthy next_page
      \<longrightarrow> server (world io) (Get (Url next_page) auth people_params) = (Responds r, w)
      \<longrightarrow> 400 \<le> status_code r \<and> status_code r < 600
      \<longrightarrow> fetch_people_loop (Suc fuel) server auth limit next_page people_list io =
            Some (Inl (HTTPError (status_code r)),
                  io\<lparr>world := w,
                     exchanges := exchanges io @ [(Get (Url next_page) auth people_params, Responds r)]\<rparr>))
   \<and> (fetch_people fuel server client_id client_secret limit io = Some (Inr people, io')
      \<longrightarrow> (\<forall>ex \<in> set (new_exchanges io io').
             \<exists>r'. snd ex = Responds r' \<and> \<not> (400 \<le> status_code r' \<and> status_code r' < 600)))
   \<and> (\<not> (400 \<le> status_code r \<and> status_code r < 600)
      \<longrightarrow> people_page limit r people_list = people_page limit (r\<lparr>status_code := 200\<rparr>) people_list)"
proof (intro conjI impI)
  assume "\<not> (400 \<le> status_code r \<and> status_code r < 600)"
  then have "raise_for_status r = Inr ()" and "raise_for_status (r\<lparr>status_code := 200\<rparr>) = Inr ()"
    by (auto simp: raise_for_status_def)
  then show "people_page limit r people_list = people_page limit (r\<lparr>status_code := 200\<rparr>) people_list"
    by (simp add: people_page_def response_json_def)
next
  assume "url_truthy url" and "server (world io) (Get url auth []) = (Responds r, w)"
    and "status_code r \<noteq> 200"
  then show "get_paginated_loop (Suc fuel) server auth url results io =
            Some (Inr results,
                  print (Error_fetching_data (status_code r))
                    (io\<lparr>world := w, exchanges := exchanges io @ [(Get url auth [], Responds r)]\<rparr>))"
    by (simp add: send_def)
next
  assume "truthy next_page"
    and "server (world io) (Get (Url next_page) auth people_params) = (Responds r, w)"
    and "400 \<le> status_code r \<and> status_code r < 600"
  then show "fetch_people_loop (Suc fuel) server auth limit next_page people_list io =
            Some (Inl (HTTPError (status_code r)),
                  io\<lparr>world := w,
                     exchanges := exchanges io @ [(Get (Url next_page) auth people_params, Responds r)]\<rparr>)"
    by (simp add: send_def people_page_def raise_for_status_def)
next
  assume "fetch_people fuel server client_id client_secret limit io = Some (Inr people, io')"
  from fetch_people_loop_Inr[OF this[unfolded fetch_people_def]]
  obtain exs where e: "exchanges io' = exchanges io @ exs"
    and ok: "\<forall>ex \<in> set exs. \<exists>r. snd ex = Responds r \<and> raise_for_status r = Inr ()"
    unfolding fetched_def by blast
  have new: "new_exchanges io io' = exs"
    by (simp add: new_exchanges_def e)
  have "\<not> (400 \<le> status_code r' \<and> status_code r' < 600)" if "raise_for_status r' = Inr ()" for r'
    using that by (simp add: raise_for_status_def split: if_splits)
  with ok show "\<forall>ex \<in> set (new_exchanges io io').
             \<exists>r'. snd ex = Responds r' \<and> \<not> (400 \<le> status_code r' \<and> status_code r' < 600)"
    unfolding new by blast
qed

theorem http_failure_policies_witness:
  "get_paginated_loop (Suc 0) (status_server 503 None) (example_id, example_secret)
       (Url service_types_url) [JStr ''kept''] io0 =
     Some (Inr [JStr ''kept''],
           io0\<lparr>exchanges := [(Get (Url service_types_url) (example_id, example_secret) [],
                                Responds \<lparr>status_code = 503, body = None\<rparr>)],
               stdout := [Error_fetching_data 503]\<rparr>)
   \<and> fetch_people_loop (Suc 0) (status_server 503 None) (example_id, example_secret) 10
       people_url [] io0 =
     Some (Inl (HTTPError 503),
           io0\<lparr>exchanges := [(Get (Url people_url) (example_id, example_secret) people_params,
                                Responds \<lparr>status_code = 503, body = None\<rparr>)]\<rparr>)
   \<and> (\<exists>people. fetch_people (Suc (Suc 0)) paged_server example_id example_secret 3 io0 =
          Some (Inr people, io0\<lparr>exchanges := paged_exchanges\<rparr>)
        \<and> list_all (\<lambda>ex. \<exists>r'. snd ex = Responds r'
              \<and> \<not> (400 \<le> status_code r' \<and> status_code r' < 600)) paged_exchanges)
   \<and> people_page 10 \<lparr>status_code = 399, body = Some last_page\<rparr> [] =
       people_page 10 \<lparr>status_code = 200, body = Some last_page\<rparr> []"
  using fetch_people_paged
proof (elim exE conjE)
  fix people
  assume run: "fetch_people (Suc (Suc 0)) paged_server example_id example_secret 3 io0 =
       Some (Inr people, io0\<lparr>exchanges := paged_exchanges\<rparr>)"
  have u: "url_truthy (Url service_types_url)" and p: "truthy people_url"
    by (simp_all add: service_types_url_def people_url_def)
  have s1: "status_server 503 None (world io0) (Get (Url service_types_url) (example_id, example_secret) [])
      = (Responds \<lparr>status_code = 503, body = None\<rparr>, ())"
    and s2: "status_server 503 None (world io0) (Get (Url people_url) (example_id, example_secret) people_params)
      = (Responds \<lparr>status_code = 503, body = None\<rparr>, ())"
    by (simp_all add: status_server_def)
  note c = http_failure_policies[where url = "Url service_types_url"
      and server = "status_server 503 None" and io = io0 and auth = "(example_id, example_secret)"
      and r = "\<lparr>status_code = 503, body = None\<rparr>" and w = "()" and fuel = 0
      and results = "[JStr ''kept'']" and next_page = people_url and limit = 10
      and people_list = "[]"]
  note c' = http_failure_policies[where server = paged_server and fuel = "Suc (Suc 0)"
      and client_id = example_id and client_secret = example_secret and limit = 3 and io = io0
      and people = people and io' = "io0\<lparr>exchanges := paged_exchanges\<rparr>"]
  from c u s1 have a: "get_paginated_loop (Suc 0) (status_server 503 None) (example_id, example_secret)
       (Url service_types_url) [JStr ''kept''] io0 =
     Some (Inr [JStr ''kept''],
           io0\<lparr>exchanges := [(Get (Url service_types_url) (example_id, example_secret) [],
                                Responds \<lparr>status_code = 503, body = None\<rparr>)],
               stdout := [Error_fetching_data 503]\<rparr>)"
    by (simp add: print_def io0_def)
  from c p s2 have b: "fetch_people_loop (Suc 0) (status_server 503 None) (example_id, example_secret) 10
       people_url [] io0 =
     Some (Inl (HTTPError 503),
           io0\<lparr>exchanges := [(Get (Url people_url) (example_id, example_secret) people_params,
                                Responds \<lparr>status_code = 503, body = None\<rparr>)]\<rparr>)"
    by (simp add: io0_def)
  have "new_exchanges io0 (io0\<lparr>exchanges := paged_exchanges\<rparr>) = paged_exchanges"
    by (simp add: new_exchanges_def io0_def)
  with c' run have la: "list_all (\<lambda>ex. \<exists>r'. snd ex = Responds r'
      \<and> \<not> (400 \<le> status_code r' \<and> status_code r' < 600)) paged_exchanges"
    by (simp add: list_all_iff)
  moreover from http_failure_policies[where r = "\<lparr>status_code = 399, body = Some last_page\<rparr>"
      and limit = 10 and people_list = "[]", THEN conjunct2, THEN conjunct2, THEN conjunct2]
  have "people_page 10 \<lparr>status_code = 399, body = Some last_page\<rparr> [] =
       people_page 10 \<lparr>status_code = 200, body = Some last_page\<rparr> []"
    by simp
  ultimately show ?thesis
    using a b run by (intro conjI exI[of _ people])
qed

text \<open>
  C5 as stated fails for a status that is neither 2xx nor 4xx nor 5xx: a response with status
  399 and a JSON body is read as a page, and \<open>fetch_people\<close> returns its record.
\<close>

theorem status_399_counterexample:
  "\<exists>people. fetch_people (Suc (Suc 0)) (status_server 399 (Some last_page)) example_id example_secret
        10 io0 =
       Some (Inr people,
             io0\<lparr>exchanges := [(Get (Url people_url) (example_id, example_secret) people_params,
                                  Responds \<lparr>status_code = 399, body = Some last_page\<rparr>)]\<rparr>)
     \<and> map pid people = [JStr ''5'']"
proof -
  have "build_included last_page = Inr Map.empty"
    by (simp add: build_included_def last_page_def)
  from flatten_plain_person[OF this] obtain i5 where
    f: "flatten_person last_page (plain_person ''5'') = Inr i5" "pid i5 = JStr ''5''"
    by blast
  have p: "people_page 10 \<lparr>status_code = 399, body = Some last_page\<rparr> [] = Inr ([i5], Some JNull)"
    using f(1)
    by (simp add: people_page_def raise_for_status_def response_json_def)
       (simp add: last_page_def)
  have "fetch_people (Suc (Suc 0)) (status_server 399 (Some last_page)) example_id example_secret
        10 io0 =
       Some (Inr [i5],
             io0\<lparr>exchanges := [(Get (Url people_url) (example_id, example_secret) people_params,
                                  Responds \<lparr>status_code = 399, body = Some last_page\<rparr>)]\<rparr>)"
    by (simp add: fetch_people_def send_def status_server_def p people_url_def io0_def)
  with f(2) show ?thesis
    by simp
qed

lemma team_position_reaches_step_4:
  assumes "load_authentication (files io) config = Inr auth"
    and "get_paginated_results fuel server (Url service_types_url) auth io = Some (Inr service_types, io1)"
    and "find_id service_types (JStr service_type_name) = Inr service_type_id"
    and "truthy service_type_id"
    and "get_paginated_results fuel server (Team_positions_url service_type_id) auth io1 =
           Some (Inr team_positions, io2)"
    and "find_id team_positions (option_value team_position_name) = Inr team_position_id"
    and "truthy team_position_id"
    and "get_paginated_results fuel server (Assignments_url service_type_id team_position_id) auth io2 =
           Some (Inr assignments, io3)"
  shows "team_position fuel server config service_type_name team_position_name io =
           Some (clear_assignments server auth service_type_id team_position_id service_type_name
                   team_position_name assignments io3)"
  by (simp add: team_position_def assms)

text \<open>A run of the whole command: three lookups, three deletions, four lines.\<close>

lemma team_position_example:
  "\<exists>io'. team_position (Suc (Suc 0)) clearing_server DEFAULT_CONFIG_PATH ''English Worship Service''
          (Some ''Drums'') configured = Some (Inr (), io')
     \<and> length (exchanges io') = 6
     \<and> stdout io' =
         [Successfully_removed (JStr ''a1'') (Some ''Drums'') ''English Worship Service'',
          Failed_to_remove (JStr ''a2'') 404,
          Successfully_removed (JStr ''a3'') (Some ''Drums'') ''English Worship Service'',
          All_assignments_removed (Some ''Drums'') ''English Worship Service'']"
  by (simp add: team_position_def load_authentication_def configured_def io0_def example_id_def
        example_secret_def get_paginated_results_def send_def clearing_server_def
        deleting_server_def results_page_def response_json_def service_types_url_def
        example_assignments_def clear_assignments_def print_def)

section \<open>Clearing a team position\<close>

text \<open>
  C6. Step 4 of \<open>team_position\<close> (which the command reaches with the assignments it has
  fetched, \<open>team_position_reaches_step_4\<close>): when the server answers the delete requests for
  the N assignments with the statuses \<open>statuses\<close>, M of them 204, the command sends all N
  requests, prints for each assignment, in order, the success line when its status is 204
  and the failure line with the status otherwise, hence M success lines and N - M failure
  lines, then the closing line, and returns without an exception.
\<close>

theorem deletions_reported:
  assumes "delete_statuses server auth service_type_id team_position_id assignments (world io)
             = Some statuses"
  shows "\<exists>io'. clear_assignments server auth service_type_id team_position_id service_type_name
                 team_position_name assignments io = (Inr (), io')
       \<and> stdout io' = stdout io
            @ map (removal_message service_type_name team_position_name) (zip assignments statuses)
            @ [All_assignments_removed team_position_name service_type_name]
       \<and> length statuses = length assignments
       \<and> length (filter is_success (drop (length (stdout io)) (stdout io')))
            = length (filter (\<lambda>c. c = 204) statuses)
       \<and> length (filter is_failure (drop (length (stdout io)) (stdout io')))
            = length assignments - length (filter (\<lambda>c. c = 204) statuses)
       \<and> length (exchanges io') = length (exchanges io) + length assignments"
proof -
  let ?msgs = "map (removal_message service_type_name team_position_name) (zip assignments statuses)"
  let ?end = "All_assignments_removed team_position_name service_type_name"
  from remove_assignments_statuses[OF assms, of service_type_name team_position_name]
  obtain io1 where
    run: "remove_assignments server auth service_type_id team_position_id service_type_name
            team_position_name assignments io = (Inr (), io1)"
    and out: "stdout io1 = stdout io @ ?msgs"
    and len: "length statuses = length assignments"
    and ex: "length (exchanges io1) = length (exchanges io) + length assignments"
    by blast
  let ?io' = "print ?end io1"
  have c: "clear_assignments server auth service_type_id team_position_id service_type_name
             team_position_name assignments io = (Inr (), ?io')"
    by (simp add: clear_assignments_def run)
  have o: "stdout ?io' = stdout io @ ?msgs @ [?end]"
    by (simp add: print_def out)
  have d: "drop (length (stdout io)) (stdout ?io') = ?msgs @ [?end]"
    by (simp add: o)
  have "length (filter is_success ?msgs) = length (filter (\<lambda>p. snd p = 204) (zip assignments statuses))"
    by (rule count_removal_messages(1))
  also have "\<dots> = length (filter (\<lambda>c. c = 204) statuses)"
    by (rule filter_zip_snd[OF len[symmetric]])
  finally have s: "length (filter is_success (?msgs @ [?end])) = length (filter (\<lambda>c. c = 204) statuses)"
    by simp
  have "length (filter is_failure ?msgs) = length (filter (\<lambda>p. snd p \<noteq> 204) (zip assignments statuses))"
    by (rule count_removal_messages(2))
  also have "\<dots> = length (filter (\<lambda>c. c \<noteq> 204) statuses)"
    by (rule filter_zip_snd[OF len[symmetric]])
  also have "\<dots> = length assignments - length (filter (\<lambda>c. c = 204) statuses)"
    using sum_length_filter_compl[of "\<lambda>c. c = 204" statuses] len by simp
  finally have f: "length (filter is_failure (?msgs @ [?end]))
      = length assignments - length (filter (\<lambda>c. c = 204) statuses)"
    by simp
  have e: "length (exchanges ?io') = length (exchanges io) + length assignments"
    by (simp add: print_def ex)
  from c o len s f e show ?thesis
    unfolding d[symmetric] by blast
qed

theorem deletions_reported_witness:
  "clear_assignments deleting_server (example_id, example_secret) (JStr ''st1'') (JStr ''tp1'')
       ''English Worship Service'' (Some ''Drums'') example_assignments io0 =
     (Inr (),
      io0\<lparr>exchanges :=
            [(Delete (Assignment_url (JStr ''st1'') (JStr ''tp1'') (JStr ''a1'')) (example_id, example_secret),
              Responds \<lparr>status_code = 204, body = None\<rparr>),
             (Delete (Assignment_url (JStr ''st1'') (JStr ''tp1'') (JStr ''a2'')) (example_id, example_secret),
              Responds \<lparr>status_code = 404, body = None\<rparr>),
             (Delete (Assignment_url (JStr ''st1'') (JStr ''tp1'') (JStr ''a3'')) (example_id, example_secret),
              Responds \<lparr>status_code = 204, body = None\<rparr>)],
          stdout :=
            [Successfully_removed (JStr ''a1'') (Some ''Drums'') ''English Worship Service'',
             Failed_to_remove (JStr ''a2'') 404,
             Successfully_removed (JStr ''a3'') (Some ''Drums'') ''English Worship Service'',
             All_assignments_removed (Some ''Drums'') ''English Worship Service'']\<rparr>)
   \<and> delete_statuses deleting_server (example_id, example_secret) (JStr ''st1'') (JStr ''tp1'')
         example_assignments (world io0) = Some [204, 404, 204]
   \<and> (\<exists>io'. clear_assignments deleting_server (example_id, example_secret) (JStr ''st1'') (JStr ''tp1'')
           ''English Worship Service'' (Some ''Drums'') example_assignments io0 = (Inr (), io')
         \<and> length (filter is_success (stdout io')) = 2
         \<and> length (filter is_failure (stdout io')) = 1
         \<and> length (exchanges io') = 3)"
proof -
  have st: "delete_statuses deleting_server (example_id, example_secret) (JStr ''st1'') (JStr ''tp1'')
         example_assignments (world io0) = Some [204, 404, 204]"
    by (simp add: example_assignments_def deleting_server_def field_def)
  from deletions_reported[OF st, of "''English Worship Service''" "Some ''Drums''"]
  obtain io' where c: "clear_assignments deleting_server (example_id, example_secret) (JStr ''st1'')
           (JStr ''tp1'') ''English Worship Service'' (Some ''Drums'') example_assignments io0 = (Inr (), io')"
    and s: "length (filter is_success (drop (length (stdout io0)) (stdout io')))
            = length (filter (\<lambda>c. c = 204) [204, 404, 204 :: int])"
    and f: "length (filter is_failure (drop (length (stdout io0)) (stdout io')))
            = length example_assignments - length (filter (\<lambda>c. c = 204) [204, 404, 204 :: int])"
    and e: "length (exchanges io') = length (exchanges io0) + length example_assignments"
    by blast
  from s f e have n: "length (filter is_success (stdout io')) = 2"
    "length (filter is_failure (stdout io')) = 1" "length (exchanges io') = 3"
    by (simp_all add: io0_def example_assignments_def)
  have "clear_assignments deleting_server (example_id, example_secret) (JStr ''st1'') (JStr ''tp1'')
       ''English Worship Service'' (Some ''Drums'') example_assignments io0 =
     (Inr (),
      io0\<lparr>exchanges :=
            [(Delete (Assignment_url (JStr ''st1'') (JStr ''tp1'') (JStr ''a1'')) (example_id, example_secret),
              Responds \<lparr>status_code = 204, body = None\<rparr>),
             (Delete (Assignment_url (JStr ''st1'') (JStr ''tp1'') (JStr ''a2'')) (example_id, example_secret),
              Responds \<lparr>status_code = 404, body = None\<rparr>),
             (Delete (Assignment_url (JStr ''st1'') (JStr ''tp1'') (JStr ''a3'')) (example_id, example_secret),
              Responds \<lparr>status_code = 204, body = None\<rparr>)],
          stdout :=
            [Successfully_removed (JStr ''a1'') (Some ''Drums'') ''English Worship Service'',
             Failed_to_remove (JStr ''a2'') 404,
             Successfully_removed (JStr ''a3'') (Some ''Drums'') ''English Worship Service'',
             All_assignments_removed (Some ''Drums'') ''English Worship Service'']\<rparr>)"
    by (simp add: clear_assignments_def example_assignments_def deleting_server_def send_def
          print_def io0_def)
  with st c n show ?thesis
    by blast
qed

text \<open>
  C9. Whenever step 4 of \<open>team_position\<close> has gone through the assignments without an
  exception, the last line printed is the closing line that all assignments have been
  removed; this is so whatever statuses the delete requests returned, also when none of them
  was 204.
\<close>

theorem summary_always_printed:
  "(clear_assignments server auth service_type_id team_position_id service_type_name
        team_position_name assignments io = (Inr (), io')
      \<longrightarrow> stdout io' \<noteq> []
        \<and> last (stdout io') = All_assignments_removed team_position_name service_type_name)
   \<and> (delete_statuses server auth service_type_id team_position_id assignments (world io)
         = Some statuses
      \<longrightarrow> (\<exists>io''. clear_assignments server auth service_type_id team_position_id service_type_name
                     team_position_name assignments io = (Inr (), io'')
            \<and> last (stdout io'') = All_assignments_removed team_position_name service_type_name))"
proof (rule conjI; rule impI)
  assume c: "clear_assignments server auth service_type_id team_position_id service_type_name
        team_position_name assignments io = (Inr (), io')"
  obtain res io1 where r: "remove_assignments server auth service_type_id team_position_id
      service_type_name team_position_name assignments io = (res, io1)"
    by (cases "remove_assignments server auth service_type_id team_position_id
      service_type_name team_position_name assignments io")
  with c have "io' = print (All_assignments_removed team_position_name service_type_name) io1"
    by (cases res) (simp_all add: clear_assignments_def)
  then show "stdout io' \<noteq> []
        \<and> last (stdout io') = All_assignments_removed team_position_name service_type_name"
    by (simp add: print_def)
next
  assume "delete_statuses server auth service_type_id team_position_id assignments (world io)
         = Some statuses"
  from remove_assignments_statuses[OF this, of service_type_name team_position_name]
  obtain io1 where "remove_assignments server auth service_type_id team_position_id
      service_type_name team_position_name assignments io = (Inr (), io1)"
    by blast
  then have "clear_assignments server auth service_type_id team_position_id service_type_name
        team_position_name assignments io
      = (Inr (), print (All_assignments_removed team_position_name service_type_name) io1)"
    by (simp add: clear_assignments_def)
  moreover have "last (stdout (print (All_assignments_removed team_position_name service_type_name) io1))
      = All_assignments_removed team_position_name service_type_name"
    by (simp add: print_def)
  ultimately show "\<exists>io''. clear_assignments server auth service_type_id team_position_id
      service_type_name team_position_name assignments io = (Inr (), io'')
            \<and> last (stdout io'') = All_assignments_removed team_position_name service_type_name"
    by blast
qed

theorem summary_always_printed_witness:
  "delete_statuses (status_server 500 None) (example_id, example_secret) (JStr ''st1'') (JStr ''tp1'')
       example_assignments (world io0) = Some [500, 500, 500]
   \<and> (\<exists>io'. clear_assignments (status_server 500 None) (example_id, example_secret) (JStr ''st1'')
           (JStr ''tp1'') ''English Worship Service'' (Some ''Drums'') example_assignments io0
           = (Inr (), io')
         \<and> last (stdout io') = All_assignments_removed (Some ''Drums'') ''English Worship Service''
         \<and> stdout io' \<noteq> [])"
proof -
  have st: "delete_statuses (status_server 500 None) (example_id, example_secret) (JStr ''st1'')
      (JStr ''tp1'') example_assignments (world io0) = Some [500, 500, 500]"
    by (simp add: example_assignments_def status_server_def field_def)
  note c = summary_always_printed[where server = "status_server 500 None"
      and auth = "(example_id, example_secret)" and service_type_id = "JStr ''st1''"
      and team_position_id = "JStr ''tp1''" and service_type_name = "''English Worship Service''"
      and team_position_name = "Some ''Drums''" and assignments = example_assignments
      and io = io0 and statuses = "[500, 500, 500]"]
  from c st obtain io' where r: "clear_assignments (status_server 500 None) (example_id, example_secret)
      (JStr ''st1'') (JStr ''tp1'') ''English Worship Service'' (Some ''Drums'') example_assignments io0
           = (Inr (), io')"
    and l: "last (stdout io') = All_assignments_removed (Some ''Drums'') ''English Worship Service''"
    by blast
  from c[where io' = io'] r have "stdout io' \<noteq> []"
    by blast
  with st r l show ?thesis
    by blast
qed

section \<open>Teams\<close>

lemma fetch_teams_one_request:
  "length (exchanges (snd (fetch_teams server client_id client_secret limit io)))
     = Suc (length (exchanges io))"
  by (simp add: fetch_teams_def send_def split: prod.splits http_result.splits)

text \<open>
  C7 does not hold of the code: \<open>fetch_teams\<close> sends one request and returns the teams of
  that one response, cut to the limit. It never reads \<open>links.next\<close>. Here the server has a
  second page with the team \<open>t2\<close>, the first page names it as next, the limit is 10, and
  the result is the team \<open>t1\<close> alone after a single request.
\<close>

theorem fetch_teams_first_page_only:
  "fetch_teams teams_server example_id example_secret 10 io0 =
     (Inr [\<lparr>team_id = JStr ''t1'', team_name = JStr ''Band'', positions = JArr []\<rparr>],
      io0\<lparr>exchanges := [(Get (Url teams_url) (example_id, example_secret) [],
                           Responds \<lparr>status_code = 200, body = Some teams_page_one\<rparr>)]\<rparr>)
   \<and> field teams_page_one ''links'' = Some (JObj [(''next'', JStr ''https://example.org/teams?offset=1'')])"
  by (simp add: fetch_teams_def send_def teams_server_def io0_def raise_for_status_def
        response_json_def teams_page_one_def team_entry_def team_record_def slice_to_def field_def)

section \<open>The \<open>init\<close> command\<close>

text \<open>
  C8 does not hold of the code: \<open>init\<close> calls \<open>create_default_config\<close> with one argument,
  the function takes none, and the call raises TypeError before anything is written or
  printed. The body of \<open>create_default_config\<close>, had it run, would have written the
  placeholder file at the default path.
\<close>

theorem init_raises:
  "init config io = (Inl TypeError, io)
   \<and> files (create_default_config io) DEFAULT_CONFIG_PATH = Yaml default_config"
  by (simp add: init_def call_create_default_config_def create_default_config_def print_def)

section \<open>Credentials\<close>




end
